theory Spec2Isabelle
  imports Main "HOL-Library.Sublist"
begin

section \<open>Values shared by the three scripts\<close>

text \<open>
  Request bodies, slot values and response payloads are untyped JSON-like Python values.
  A Python \<open>dict\<close> is an association list whose first binding of a key is the one the
  dictionary holds. Numbers are the integers; no handler computes with a number it receives.
  A Python \<open>str\<close> is the list of the bytes of its UTF-8 encoding, so the pictographs
  of the source are written as their bytes.
\<close>

datatype json =
    JNull
  | JBool bool
  | JInt int
  | JStr string
  | JArr "json list"
  | JObj "(string \<times> json) list"

text \<open>
  Exceptions. Every exception of the model is a subclass of Python's \<open>Exception\<close>, so a
  bare \<open>except:\<close> and \<open>except Exception\<close> both catch it. \<open>External\<close> is an exception
  raised inside a library call (Flask, requests, pip, a model hub), with its message.
\<close>

datatype exn = AttributeError | TypeError | External string

definition bindE :: "exn + 'a \<Rightarrow> ('a \<Rightarrow> exn + 'b) \<Rightarrow> exn + 'b" where
  "bindE r f = (case r of Inl e \<Rightarrow> Inl e | Inr v \<Rightarrow> f v)"

text \<open>Python truthiness: what \<open>if v\<close>, \<open>not v\<close> and \<open>bool(v)\<close> test.\<close>

fun truthy :: "json \<Rightarrow> bool" where
  "truthy JNull = False"
| "truthy (JBool b) = b"
| "truthy (JInt i) = (i \<noteq> 0)"
| "truthy (JStr s) = (s \<noteq> [])"
| "truthy (JArr xs) = (xs \<noteq> [])"
| "truthy (JObj kvs) = (kvs \<noteq> [])"

text \<open>
  \<open>v.get(k, d)\<close>: only a dict has the method; on any other value the attribute lookup
  raises \<open>AttributeError\<close>. A key bound to \<open>None\<close> is present, so \<open>None\<close> is returned.
\<close>

fun dict_get :: "json \<Rightarrow> string \<Rightarrow> json \<Rightarrow> exn + json" where
  "dict_get (JObj kvs) k d = Inr (case map_of kvs k of None \<Rightarrow> d | Some v \<Rightarrow> v)"
| "dict_get _ k d = Inl AttributeError"

text \<open>
  The characters \<open>str.split()\<close> and \<open>str.strip()\<close> treat as whitespace, within ASCII
  (tab, line feed, vertical tab, form feed, carriage return, the four separators
  0x1C..0x1F and the space). Whitespace beyond ASCII is not recognised by the model.
\<close>

definition is_space :: "char \<Rightarrow> bool" where
  "is_space c = (of_char c \<in> {9, 10, 11, 12, 13, 28, 29, 30, 31, 32 :: nat})"

text \<open>\<open>s.split()\<close> without a separator: the maximal runs of non-whitespace.\<close>

function split_ws :: "string \<Rightarrow> string list" where
  "split_ws s =
     (let s' = dropWhile is_space s
      in if s' = [] then []
         else takeWhile (\<lambda>c. \<not> is_space c) s' # split_ws (dropWhile (\<lambda>c. \<not> is_space c) s'))"
  by pat_completeness auto
termination
proof (relation "measure length")
  show "wf (measure length)" by simp
next
  fix s s' :: string
  assume s': "s' = dropWhile is_space s" and ne: "s' \<noteq> []"
  from ne obtain c cs where c: "s' = c # cs" by (cases s') auto
  from ne s' have "\<not> is_space (hd s')" using hd_dropWhile [of is_space s] by simp
  with c have "\<not> is_space c" by simp
  then have "dropWhile (\<lambda>c. \<not> is_space c) s' = dropWhile (\<lambda>c. \<not> is_space c) cs"
    using c by simp
  then have "length (dropWhile (\<lambda>c. \<not> is_space c) s') \<le> length cs"
    by (simp add: length_dropWhile_le)
  also have "length cs < length s'" using c by simp
  also have "length s' \<le> length s" using s' by (simp add: length_dropWhile_le)
  finally show "(dropWhile (\<lambda>c. \<not> is_space c) s', s) \<in> measure length" by simp
qed

declare split_ws.simps [simp del]

text \<open>\<open>v.split()\<close> on an arbitrary value: only a \<open>str\<close> has the method.\<close>

fun str_split :: "json \<Rightarrow> exn + string list" where
  "str_split (JStr s) = Inr (split_ws s)"
| "str_split _ = Inl AttributeError"

text \<open>
  The text an f-string puts for \<open>{v}\<close>. A \<open>str\<close> is inserted as it is; for every other
  value Python calls the value's own \<open>__format__\<close>, which is the parameter \<open>repr\<close> here.
\<close>

fun format_value :: "(json \<Rightarrow> string) \<Rightarrow> json \<Rightarrow> string" where
  "format_value repr (JStr s) = s"
| "format_value repr v = repr v"

section \<open>The inference server (h100-inference-server.py)\<close>

text \<open>
  The module-level names every handler reads. The values of the two model dictionaries are
  loaded model objects, of a type \<open>'m\<close> the source never fixes.
\<close>

record 'm globals =
  GPU_AVAILABLE :: bool
  TEXT_MODELS :: "(string \<times> 'm) list"
  IMAGE_MODELS :: "(string \<times> 'm) list"

text \<open>
  Both loaders start from the empty dictionary, log one line on either branch and return
  the dictionary untouched. The log is not part of the result.
\<close>

definition load_text_models :: "bool \<Rightarrow> (string \<times> 'm) list" where
  "load_text_models gpu = (let models = [] in if gpu then models else models)"

definition load_image_models :: "bool \<Rightarrow> (string \<times> 'm) list" where
  "load_image_models gpu = (let models = [] in if gpu then models else models)"

text \<open>The module's initialisation, given what accelerator detection found.\<close>

definition init_globals :: "bool \<Rightarrow> 'm globals" where
  "init_globals gpu =
     \<lparr>GPU_AVAILABLE = gpu,
      TEXT_MODELS = load_text_models gpu,
      IMAGE_MODELS = load_image_models gpu\<rparr>"

text \<open>\<open>a or b\<close> on two dictionaries, and \<open>list(d.keys())\<close> as JSON.\<close>

definition dict_or :: "(string \<times> 'm) list \<Rightarrow> (string \<times> 'm) list \<Rightarrow> (string \<times> 'm) list" where
  "dict_or a b = (if a \<noteq> [] then a else b)"

definition keys_json :: "(string \<times> 'm) list \<Rightarrow> json" where
  "keys_json d = JArr (map JStr (remdups (map fst d)))"

text \<open>
  A request as a handler sees it: \<open>request.json\<close> either raises inside Flask (the body is
  not JSON) or is the parsed value, which need not be an object.
\<close>

record request =
  request_json :: "exn + json"

definition health :: "'m globals \<Rightarrow> json" where
  "health g =
     JObj [(''status'', JStr ''ok''),
           (''gpu_available'', JBool (GPU_AVAILABLE g)),
           (''models_loaded'', JBool (dict_or (TEXT_MODELS g) (IMAGE_MODELS g) \<noteq> []))]"

definition generate_text :: "(json \<Rightarrow> string) \<Rightarrow> 'm globals \<Rightarrow> request \<Rightarrow> exn + json" where
  "generate_text repr g req =
     bindE (request_json req) (\<lambda>data.
     bindE (dict_get data ''prompt'' (JStr '''')) (\<lambda>prompt.
     bindE (dict_get data ''model'' (JStr ''default'')) (\<lambda>model.
     bindE (dict_get data ''max_tokens'' (JInt 1000)) (\<lambda>max_tokens.
       if \<not> GPU_AVAILABLE g then
         bindE (str_split prompt) (\<lambda>ws.
           Inr (JObj [(''text'', JStr (''[Mock H100 Response] I would generate text for: ''
                                        @ [CHR 0x27] @ format_value repr prompt @ [CHR 0x27]
                                        @ '' using model '' @ format_value repr model)),
                      (''tokens_used'', JInt (int (length ws) * 2)),
                      (''model'', model),
                      (''gpu_used'', JBool False)]))
       else
         Inr (JObj [(''text'', JStr (''Generated response for: '' @ format_value repr prompt)),
                    (''tokens_used'', max_tokens),
                    (''model'', model),
                    (''gpu_used'', JBool True)])))))"

definition generate_image :: "'m globals \<Rightarrow> request \<Rightarrow> exn + json" where
  "generate_image g req =
     bindE (request_json req) (\<lambda>data.
     bindE (dict_get data ''prompt'' (JStr '''')) (\<lambda>prompt.
     bindE (dict_get data ''model'' (JStr ''stable-diffusion-2.1'')) (\<lambda>model.
       if \<not> GPU_AVAILABLE g then
         Inr (JObj [(''image_url'',
                       JStr ''https://via.placeholder.com/1024x1024/FF6B6B/FFFFFF?text=H100+GPU+Not+Available''),
                    (''prompt'', prompt),
                    (''model'', model),
                    (''gpu_used'', JBool False)])
       else
         Inr (JObj [(''image_url'', JStr ''generated_image_url_here''),
                    (''prompt'', prompt),
                    (''model'', model),
                    (''gpu_used'', JBool True)]))))"

definition list_models :: "'m globals \<Rightarrow> json" where
  "list_models g =
     JObj [(''text_models'',
              if TEXT_MODELS g \<noteq> [] then keys_json (TEXT_MODELS g) else JArr [JStr ''none_loaded'']),
           (''image_models'',
              if IMAGE_MODELS g \<noteq> [] then keys_json (IMAGE_MODELS g) else JArr [JStr ''none_loaded'']),
           (''gpu_available'', JBool (GPU_AVAILABLE g))]"

text \<open>The route table.\<close>

datatype endpoint = Health | Generate | GenerateImage | Models

fun handle :: "(json \<Rightarrow> string) \<Rightarrow> 'm globals \<Rightarrow> endpoint \<Rightarrow> request \<Rightarrow> exn + json" where
  "handle repr g Health req = Inr (health g)"
| "handle repr g Generate req = generate_text repr g req"
| "handle repr g GenerateImage req = generate_image g req"
| "handle repr g Models req = Inr (list_models g)"

text \<open>
  The same four handlers once more, statement by statement, as steps on the module-level
  names: a step takes the values of the names before it and gives its result and the
  values after it. Python lets a function do three things with a module-level name: read
  it, assign it (after a \<open>global\<close> declaration), or change in place the object it holds.
  \<open>readS\<close> is the first and \<open>assignS\<close> stands for the other two; \<open>localS\<close> is a
  computation on the request and on local names only, which returns or raises.
\<close>

type_synonym ('m, 'a) step = "'m globals \<Rightarrow> (exn + 'a) \<times> 'm globals"

definition readS :: "('m globals \<Rightarrow> 'a) \<Rightarrow> ('m, 'a) step" where
  "readS name g = (Inr (name g), g)"

definition assignS :: "('m globals \<Rightarrow> 'm globals) \<Rightarrow> ('m, unit) step" where
  "assignS upd g = (Inr (), upd g)"

definition localS :: "exn + 'a \<Rightarrow> ('m, 'a) step" where
  "localS r g = (r, g)"

definition bindS :: "('m, 'a) step \<Rightarrow> ('a \<Rightarrow> ('m, 'b) step) \<Rightarrow> ('m, 'b) step" where
  "bindS m f g = (case m g of (Inl e, g') \<Rightarrow> (Inl e, g') | (Inr v, g') \<Rightarrow> f v g')"

definition health_st :: "('m, json) step" where
  "health_st =
     bindS (readS GPU_AVAILABLE) (\<lambda>gpu_available.
     bindS (readS TEXT_MODELS) (\<lambda>text_models.
     bindS (readS IMAGE_MODELS) (\<lambda>image_models.
       localS (Inr (JObj [(''status'', JStr ''ok''),
                          (''gpu_available'', JBool gpu_available),
                          (''models_loaded'', JBool (dict_or text_models image_models \<noteq> []))])))))"

definition generate_text_st :: "(json \<Rightarrow> string) \<Rightarrow> request \<Rightarrow> ('m, json) step" where
  "generate_text_st repr req =
     bindS (localS (request_json req)) (\<lambda>data.
     bindS (localS (dict_get data ''prompt'' (JStr []))) (\<lambda>prompt.
     bindS (localS (dict_get data ''model'' (JStr ''default''))) (\<lambda>model.
     bindS (localS (dict_get data ''max_tokens'' (JInt 1000))) (\<lambda>max_tokens.
     bindS (readS GPU_AVAILABLE) (\<lambda>gpu_available.
       if \<not> gpu_available then
         bindS (localS (str_split prompt)) (\<lambda>ws.
           localS (Inr (JObj [(''text'', JStr (''[Mock H100 Response] I would generate text for: ''
                                        @ [CHR 0x27] @ format_value repr prompt @ [CHR 0x27]
                                        @ '' using model '' @ format_value repr model)),
                              (''tokens_used'', JInt (int (length ws) * 2)),
                              (''model'', model),
                              (''gpu_used'', JBool False)])))
       else
         localS (Inr (JObj [(''text'', JStr (''Generated response for: '' @ format_value repr prompt)),
                            (''tokens_used'', max_tokens),
                            (''model'', model),
                            (''gpu_used'', JBool True)])))))))"

definition generate_image_st :: "request \<Rightarrow> ('m, json) step" where
  "generate_image_st req =
     bindS (localS (request_json req)) (\<lambda>data.
     bindS (localS (dict_get data ''prompt'' (JStr []))) (\<lambda>prompt.
     bindS (localS (dict_get data ''model'' (JStr ''stable-diffusion-2.1''))) (\<lambda>model.
     bindS (readS GPU_AVAILABLE) (\<lambda>gpu_available.
       if \<not> gpu_available then
         localS (Inr (JObj [(''image_url'',
                       JStr ''https://via.placeholder.com/1024x1024/FF6B6B/FFFFFF?text=H100+GPU+Not+Available''),
                            (''prompt'', prompt),
                            (''model'', model),
                            (''gpu_used'', JBool False)]))
       else
         localS (Inr (JObj [(''image_url'', JStr ''generated_image_url_here''),
                            (''prompt'', prompt),
                            (''model'', model),
                            (''gpu_used'', JBool True)]))))))"

definition list_models_st :: "('m, json) step" where
  "list_models_st =
     bindS (readS TEXT_MODELS) (\<lambda>text_models.
     bindS (readS IMAGE_MODELS) (\<lambda>image_models.
     bindS (readS GPU_AVAILABLE) (\<lambda>gpu_available.
       localS (Inr (JObj [(''text_models'',
                             if text_models \<noteq> [] then keys_json text_models
                             else JArr [JStr ''none_loaded'']),
                          (''image_models'',
                             if image_models \<noteq> [] then keys_json image_models
                             else JArr [JStr ''none_loaded'']),
                          (''gpu_available'', JBool gpu_available)])))))"

fun handle_st :: "(json \<Rightarrow> string) \<Rightarrow> endpoint \<Rightarrow> request \<Rightarrow> ('m, json) step" where
  "handle_st repr Health req = health_st"
| "handle_st repr Generate req = generate_text_st repr req"
| "handle_st repr GenerateImage req = generate_image_st req"
| "handle_st repr Models req = list_models_st"

text \<open>
  The server answers the requests one after the other, each on the module state the
  one before it left.
\<close>

fun serve_all ::
  "(json \<Rightarrow> string) \<Rightarrow> 'm globals \<Rightarrow> (endpoint \<times> request) list
     \<Rightarrow> (exn + json) list \<times> 'm globals" where
  "serve_all repr g [] = ([], g)"
| "serve_all repr g (r # rs) =
     (let (resp, g') = handle_st repr (fst r) (snd r) g;
          (resps, g'') = serve_all repr g' rs
      in (resp # resps, g''))"

section \<open>The dialogue actions (rasa/actions/actions.py)\<close>

text \<open>
  The tracker holds the slots and the latest user message (a dict).
  \<open>tracker.get_slot\<close> gives \<open>None\<close> for a slot that is not there.
\<close>

record tracker =
  slots :: "string \<Rightarrow> json option"
  latest_message :: "(string \<times> json) list"

definition get_slot :: "tracker \<Rightarrow> string \<Rightarrow> json" where
  "get_slot tr k = (case slots tr k of None \<Rightarrow> JNull | Some v \<Rightarrow> v)"

definition latest_text :: "tracker \<Rightarrow> json" where
  "latest_text tr = (case map_of (latest_message tr) ''text'' of None \<Rightarrow> JNull | Some v \<Rightarrow> v)"

text \<open>
  The network is the environment: a request either raises inside \<open>requests\<close> or gets a
  response, whose \<open>.ok\<close> is a flag and whose \<open>.json()\<close> raises or gives a value.
\<close>

datatype http_method = GET | POST

record http_request =
  meth :: http_method
  url :: string
  payload :: "json option"

record response =
  ok :: bool
  body :: "exn + json"

type_synonym network = "http_request \<Rightarrow> exn + response"

datatype event = SlotSet string json

text \<open>
  What one run of an action leaves behind: the texts given to
  \<open>dispatcher.utter_message\<close>, the events returned, and the HTTP requests issued.
\<close>

record outcome =
  messages :: "json list"
  events :: "event list"
  sent :: "http_request list"

definition utter :: "json \<Rightarrow> http_request list \<Rightarrow> outcome" where
  "utter txt rqs = \<lparr>messages = [txt], events = [], sent = rqs\<rparr>"

definition ActionCreateTask_run :: "(json \<Rightarrow> string) \<Rightarrow> network \<Rightarrow> tracker \<Rightarrow> exn + outcome" where
  "ActionCreateTask_run repr net tr =
     (let task_name = get_slot tr ''task_name'' in
      if truthy task_name then
        (let rq = \<lparr>meth = POST, url = ''http://localhost:3000/api/orchestrator/tasks'',
                   payload = Some (JObj [(''name'', task_name), (''status'', JStr ''pending'')])\<rparr>
         in case net rq of
              Inr response \<Rightarrow>
                if ok response then
                  Inr (utter (JStr ([CHR 0xE2, CHR 0x9C, CHR 0x85] @ '' Task '' @ [CHR 0x27]
                                    @ format_value repr task_name @ [CHR 0x27]
                                    @ '' has been created!'')) [rq])
                else
                  Inr (utter (JStr ''Sorry, I couldn't create the task. Please try again.'') [rq])
            | Inl e \<Rightarrow>
                Inr (utter (JStr ''I'm having trouble connecting to the task service.'') [rq]))
      else Inr (utter (JStr ''What task would you like me to create?'') []))"

text \<open>
  \<open>for task in tasks\<close>: a list gives its elements, a dict its keys, a \<open>str\<close> its
  characters (each a \<open>str\<close>); a number or a boolean is not iterable.
\<close>

fun py_iter :: "json \<Rightarrow> exn + json list" where
  "py_iter (JArr xs) = Inr xs"
| "py_iter (JObj kvs) = Inr (map JStr (remdups (map fst kvs)))"
| "py_iter (JStr s) = Inr (map (\<lambda>c. JStr [c]) s)"
| "py_iter _ = Inl TypeError"

fun task_lines :: "(json \<Rightarrow> string) \<Rightarrow> json list \<Rightarrow> string \<Rightarrow> exn + string" where
  "task_lines repr [] task_list = Inr task_list"
| "task_lines repr (task # rest) task_list =
     bindE (dict_get task ''completed'' JNull) (\<lambda>completed.
       let status = (if truthy completed then [CHR 0xE2, CHR 0x9C, CHR 0x85]
                     else [CHR 0xE2, CHR 0x8F, CHR 0xB3])
       in bindE (dict_get task ''name'' JNull) (\<lambda>name.
            task_lines repr rest
              (task_list @ status @ '' '' @ format_value repr name @ [CHR 0x0A])))"

definition ActionListTasks_run :: "(json \<Rightarrow> string) \<Rightarrow> network \<Rightarrow> tracker \<Rightarrow> exn + outcome" where
  "ActionListTasks_run repr net tr =
     (let rq = \<lparr>meth = GET, url = ''http://localhost:3000/api/orchestrator/tasks'',
                payload = None\<rparr>;
          failed = utter (JStr ''I couldn't retrieve your tasks right now.'') [rq]
      in case net rq of
           Inr response \<Rightarrow>
             if ok response then
               (case body response of
                  Inr tasks \<Rightarrow>
                    if truthy tasks then
                      (case bindE (py_iter tasks) (\<lambda>ts.
                              task_lines repr ts
                                ([CHR 0xF0, CHR 0x9F, CHR 0x93, CHR 0x8B]
                                 @ '' Your current tasks:'' @ [CHR 0x0A])) of
                         Inr task_list \<Rightarrow> Inr (utter (JStr task_list) [rq])
                       | Inl e \<Rightarrow> Inr failed)
                    else
                      Inr (utter (JStr ''You don't have any tasks yet. Would you like to create one?'') [rq])
                | Inl e \<Rightarrow> Inr failed)
             else Inr \<lparr>messages = [], events = [], sent = [rq]\<rparr>
         | Inl e \<Rightarrow> Inr failed)"

text \<open>The comment of the source: ensure the URL has a protocol.\<close>

definition ensure_protocol :: "string \<Rightarrow> string" where
  "ensure_protocol website_url =
     (if \<not> (prefix ''http://'' website_url \<or> prefix ''https://'' website_url)
      then ''https://'' @ website_url else website_url)"

text \<open>
  \<open>website_url.startswith\<close> stands before the \<open>try\<close>: on a slot value that is truthy
  and not a \<open>str\<close> the action raises.
\<close>

definition ActionBrowseWebsite_run :: "(json \<Rightarrow> string) \<Rightarrow> network \<Rightarrow> tracker \<Rightarrow> exn + outcome" where
  "ActionBrowseWebsite_run repr net tr =
     (let website_url = get_slot tr ''website_url'' in
      if truthy website_url then
        (case website_url of
           JStr u \<Rightarrow>
             (let website_url = ensure_protocol u;
                  rq = \<lparr>meth = POST, url = ''http://localhost:3000/api/browser-agent/navigate'',
                        payload = Some (JObj [(''url'', JStr website_url)])\<rparr>
              in case net rq of
                   Inr response \<Rightarrow>
                     if ok response then
                       Inr (utter (JStr ([CHR 0xF0, CHR 0x9F, CHR 0x8C, CHR 0x90] @ '' I've opened ''
                                         @ website_url
                                         @ '' for you. You can see it in the browser panel.'')) [rq])
                     else Inr (utter (JStr ''I had trouble opening that website.'') [rq])
                 | Inl e \<Rightarrow>
                     Inr (utter (JStr ''The browser service isn't available right now.'') [rq]))
         | _ \<Rightarrow> Inl AttributeError)
      else Inr (utter (JStr ''Which website would you like me to browse?'') []))"

definition ActionToggleConversationMode_run ::
  "(json \<Rightarrow> string) \<Rightarrow> network \<Rightarrow> tracker \<Rightarrow> exn + outcome" where
  "ActionToggleConversationMode_run repr net tr =
     (let current_mode = get_slot tr ''conversation_mode'';
          new_mode = JBool (\<not> truthy current_mode)
      in Inr \<lparr>messages = [], events = [SlotSet ''conversation_mode'' new_mode], sent = []\<rparr>)"

definition ActionToggleAutoSpeak_run ::
  "(json \<Rightarrow> string) \<Rightarrow> network \<Rightarrow> tracker \<Rightarrow> exn + outcome" where
  "ActionToggleAutoSpeak_run repr net tr =
     (let current_setting = get_slot tr ''auto_speak'';
          new_setting = JBool (\<not> truthy current_setting)
      in Inr \<lparr>messages = [], events = [SlotSet ''auto_speak'' new_setting], sent = []\<rparr>)"

definition ActionChangeVoice_run :: "(json \<Rightarrow> string) \<Rightarrow> network \<Rightarrow> tracker \<Rightarrow> exn + outcome" where
  "ActionChangeVoice_run repr net tr =
     (let voice_name = get_slot tr ''voice_name'' in
      if truthy voice_name then
        Inr \<lparr>messages = [JStr (''I've switched to the '' @ format_value repr voice_name @ '' voice.'')],
             events = [SlotSet ''current_voice'' voice_name], sent = []\<rparr>
      else
        Inr (utter (JStr ''Which voice would you like me to use? Available: rachel, josh, bella, adam, sam'') []))"

definition ActionAIResponse_run :: "(json \<Rightarrow> string) \<Rightarrow> network \<Rightarrow> tracker \<Rightarrow> exn + outcome" where
  "ActionAIResponse_run repr net tr =
     (let user_message = latest_text tr;
          rq = \<lparr>meth = POST, url = ''http://localhost:3000/api/ai/chat'',
                payload = Some (JObj [(''prompt'', user_message),
                                      (''model'', JStr ''auto''),
                                      (''task_type'', JStr ''general''),
                                      (''complexity'', JStr ''medium''),
                                      (''quality'', JStr ''standard'')])\<rparr>;
          failed = utter (JStr ''I'm experiencing some technical difficulties. Please try again later.'') [rq]
      in case net rq of
           Inr response \<Rightarrow>
             if ok response then
               (case bindE (body response) (\<lambda>data.
                             dict_get data ''result''
                               (JStr ''I apologize, but I couldn't generate a response.'')) of
                  Inr ai_response \<Rightarrow> Inr (utter ai_response [rq])
                | Inl e \<Rightarrow> Inr failed)
             else Inr (utter (JStr ''I'm having trouble thinking right now. Please try again.'') [rq])
         | Inl e \<Rightarrow> Inr failed)"

text \<open>
  \<open>str.lower\<close>, \<open>str.replace\<close> and \<open>str.strip\<close>. Lowering acts on the ASCII letters
  and leaves every other byte as it is; \<open>replace\<close> substitutes the occurrences found from
  left to right, none overlapping an earlier one.
\<close>

definition lower_char :: "char \<Rightarrow> char" where
  "lower_char c =
     (let n = (of_char c :: nat) in if 65 \<le> n \<and> n \<le> 90 then char_of (n + 32) else c)"

definition str_lower :: "string \<Rightarrow> string" where
  "str_lower s = map lower_char s"

function str_replace :: "string \<Rightarrow> string \<Rightarrow> string \<Rightarrow> string" where
  "str_replace old new [] = (if old = [] then new else [])"
| "str_replace old new (c # cs) =
     (if old = [] then new @ c # str_replace old new cs
      else if prefix old (c # cs)
           then new @ str_replace old new (drop (length old) (c # cs))
           else c # str_replace old new cs)"
  by pat_completeness auto
termination
  by (relation "measure (\<lambda>(old, new, s). length s)") auto

definition str_strip :: "string \<Rightarrow> string" where
  "str_strip s = rev (dropWhile is_space (rev (dropWhile is_space s)))"

text \<open>
  \<open>user_message.lower()\<close> stands before the \<open>try\<close>: when the latest message has no
  text, or a text that is not a \<open>str\<close>, the action raises.
\<close>

definition ActionGenerateImage_run :: "(json \<Rightarrow> string) \<Rightarrow> network \<Rightarrow> tracker \<Rightarrow> exn + outcome" where
  "ActionGenerateImage_run repr net tr =
     (case latest_text tr of
        JStr user_message \<Rightarrow>
          (let prompt = str_strip
                          (str_replace ''make an image showing'' []
                            (str_replace ''create a picture of'' []
                              (str_replace ''generate an image of'' [] (str_lower user_message))));
               rq = \<lparr>meth = POST, url = ''http://localhost:3000/api/ai/chat'',
                     payload = Some (JObj [(''prompt'', JStr prompt),
                                           (''task_type'', JStr ''image''),
                                           (''complexity'', JStr ''medium''),
                                           (''quality'', JStr ''standard'')])\<rparr>;
               failed = utter (JStr ''The image generation service is unavailable.'') [rq]
           in case net rq of
                Inr response \<Rightarrow>
                  if ok response then
                    (case bindE (body response) (\<lambda>data. dict_get data ''result'' (JStr [])) of
                       Inr result \<Rightarrow>
                         Inr (utter (JStr ([CHR 0xF0, CHR 0x9F, CHR 0x8E, CHR 0xA8]
                                           @ '' Here's your image:'' @ [CHR 0x0A, CHR 0x0A]
                                           @ format_value repr result)) [rq])
                     | Inl e \<Rightarrow> Inr failed)
                  else Inr (utter (JStr ''I couldn't generate the image right now.'') [rq])
              | Inl e \<Rightarrow> Inr failed)
      | _ \<Rightarrow> Inl AttributeError)"

definition ActionAnalyzeDocument_run ::
  "(json \<Rightarrow> string) \<Rightarrow> network \<Rightarrow> tracker \<Rightarrow> exn + outcome" where
  "ActionAnalyzeDocument_run repr net tr =
     Inr (utter (JStr ([CHR 0xF0, CHR 0x9F, CHR 0x93, CHR 0x84]
                       @ '' Please upload your document using the paperclip button, and I'll analyze it for you.'')) [])"

definition ActionBuildApp_run :: "(json \<Rightarrow> string) \<Rightarrow> network \<Rightarrow> tracker \<Rightarrow> exn + outcome" where
  "ActionBuildApp_run repr net tr =
     (let app_type = get_slot tr ''app_type'' in
      if truthy app_type then
        Inr (utter (JStr ([CHR 0xF0, CHR 0x9F, CHR 0x9A, CHR 0x80] @ '' I'll help you build a ''
                          @ format_value repr app_type
                          @ '' app! Let me open DeepAgent for you...'')) [])
      else
        Inr (utter (JStr ''What type of app would you like to build? (e.g., react, python, web, mobile)'') []))"

text \<open>The ten action classes of the module, and the dispatch on the class.\<close>

datatype action =
    ActionCreateTask
  | ActionListTasks
  | ActionBrowseWebsite
  | ActionToggleConversationMode
  | ActionToggleAutoSpeak
  | ActionChangeVoice
  | ActionAIResponse
  | ActionGenerateImage
  | ActionAnalyzeDocument
  | ActionBuildApp

fun name :: "action \<Rightarrow> string" where
  "name ActionCreateTask = ''action_create_task''"
| "name ActionListTasks = ''action_list_tasks''"
| "name ActionBrowseWebsite = ''action_browse_website''"
| "name ActionToggleConversationMode = ''action_toggle_conversation_mode''"
| "name ActionToggleAutoSpeak = ''action_toggle_auto_speak''"
| "name ActionChangeVoice = ''action_change_voice''"
| "name ActionAIResponse = ''action_ai_response''"
| "name ActionGenerateImage = ''action_generate_image''"
| "name ActionAnalyzeDocument = ''action_analyze_document''"
| "name ActionBuildApp = ''action_build_app''"

fun run :: "action \<Rightarrow> (json \<Rightarrow> string) \<Rightarrow> network \<Rightarrow> tracker \<Rightarrow> exn + outcome" where
  "run ActionCreateTask = ActionCreateTask_run"
| "run ActionListTasks = ActionListTasks_run"
| "run ActionBrowseWebsite = ActionBrowseWebsite_run"
| "run ActionToggleConversationMode = ActionToggleConversationMode_run"
| "run ActionToggleAutoSpeak = ActionToggleAutoSpeak_run"
| "run ActionChangeVoice = ActionChangeVoice_run"
| "run ActionAIResponse = ActionAIResponse_run"
| "run ActionGenerateImage = ActionGenerateImage_run"
| "run ActionAnalyzeDocument = ActionAnalyzeDocument_run"
| "run ActionBuildApp = ActionBuildApp_run"

section \<open>The deployment script (server/src/deploy-vision-models.py)\<close>

text \<open>
  The script acts on the world outside it: it logs, runs the package installer, imports
  and calls third-party libraries, and writes one file. Each such call is an entry of the
  trace \<open>calls\<close>; whether it raises is the environment's choice, a function from the call
  to the message of the exception it raises, if any.
\<close>

datatype level = INFO | WARNING | ERROR

datatype call =
    PipInstall "string list"
  | Import string
  | TokenizerFromPretrained string
  | ModelFromPretrained string string "string option"
  | SavePretrained string string
  | EasyOcrReader "string list"
  | OcrPredictor
  | PaddleOCR bool
  | WriteFile string

type_synonym env = "call \<Rightarrow> string option"

record world =
  log :: "(level \<times> string) list"
  calls :: "call list"
  files :: "string \<Rightarrow> string option"

text \<open>
  A method is a function from the world before to its result and the world after; the
  result is \<open>Inl msg\<close> when it raised an exception whose \<open>str\<close> is \<open>msg\<close>.
\<close>

type_synonym proc = "world \<Rightarrow> (string + unit) \<times> world"

definition logger_info :: "string \<Rightarrow> proc" where
  "logger_info msg w = (Inr (), w\<lparr>log := log w @ [(INFO, msg)]\<rparr>)"

definition logger_error :: "string \<Rightarrow> proc" where
  "logger_error msg w = (Inr (), w\<lparr>log := log w @ [(ERROR, msg)]\<rparr>)"

definition external :: "env \<Rightarrow> call \<Rightarrow> proc" where
  "external env c w =
     ((case env c of None \<Rightarrow> Inr () | Some msg \<Rightarrow> Inl msg), w\<lparr>calls := calls w @ [c]\<rparr>)"

text \<open>
  \<open>with open(path, 'w') as f: f.write(content)\<close>. When it raises, the model leaves the
  file as it was: what a failed write leaves on disk is not modelled.
\<close>

definition write_file :: "env \<Rightarrow> string \<Rightarrow> string \<Rightarrow> proc" where
  "write_file env path content w =
     (case env (WriteFile path) of
        None \<Rightarrow> (Inr (), w\<lparr>calls := calls w @ [WriteFile path],
                            files := (files w)(path \<mapsto> content)\<rparr>)
      | Some msg \<Rightarrow> (Inl msg, w\<lparr>calls := calls w @ [WriteFile path]\<rparr>))"

text \<open>Statements one after the other: the first that raises ends the sequence.\<close>

fun seqP :: "proc list \<Rightarrow> proc" where
  "seqP [] w = (Inr (), w)"
| "seqP (p # ps) w = (case p w of (Inl e, w') \<Rightarrow> (Inl e, w') | (Inr u, w') \<Rightarrow> seqP ps w')"

text \<open>\<open>try: p  except Exception as e: h(e)\<close>.\<close>

definition try_except :: "proc \<Rightarrow> (string \<Rightarrow> proc) \<Rightarrow> proc" where
  "try_except p h w = (case p w of (Inl e, w') \<Rightarrow> h e w' | (Inr u, w') \<Rightarrow> (Inr u, w'))"

text \<open>\<open>Path.parent\<close> and the operator \<open>/\<close> of \<open>pathlib\<close>, on a path of two components or more.\<close>

definition path_parent :: "string \<Rightarrow> string" where
  "path_parent p = rev (tl (dropWhile (\<lambda>c. c \<noteq> CHR ''/'') (rev p)))"

definition path_join :: "string \<Rightarrow> string \<Rightarrow> string" where
  "path_join p q = p @ ''/'' @ q"

record deployer =
  models_dir :: string
  gpu_available :: bool

text \<open>
  \<open>__init__\<close>: the models directory is a constant, and \<open>gpu_available\<close> is what
  accelerator detection found.
\<close>

definition VisionModelDeployer_init :: "bool \<Rightarrow> deployer" where
  "VisionModelDeployer_init gpu = \<lparr>models_dir = ''/opt/models/vision'', gpu_available = gpu\<rparr>"

definition dependencies :: "string list" where
  "dependencies =
     [''torch torchvision torchaudio --index-url https://download.pytorch.org/whl/cu118'',
      ''transformers>=4.36.0'',
      ''accelerate'',
      ''bitsandbytes'',
      ''easyocr'',
      ''python-doctr[torch]'',
      ''kraken'',
      ''paddlepaddle-gpu'',
      ''paddleocr'',
      ''opencv-python'',
      ''pillow'',
      ''albumentations'',
      ''decord'',
      ''av'',
      ''huggingface-hub'',
      ''gradio'',
      ''fastapi'',
      ''uvicorn'']"

definition install_dependencies :: "env \<Rightarrow> deployer \<Rightarrow> proc" where
  "install_dependencies env self =
     seqP (logger_info ([CHR 0xF0, CHR 0x9F, CHR 0x93, CHR 0xA6]
                        @ '' Installing vision model dependencies...'')
           # concat (map (\<lambda>dep. [logger_info (''Installing: '' @ dep),
                                   external env (PipInstall (split_ws dep))])
                         dependencies))"

definition deploy_qwen_vl :: "env \<Rightarrow> deployer \<Rightarrow> proc" where
  "deploy_qwen_vl env self =
     (let model_id = ''Qwen/Qwen2-VL-7B-Instruct'';
          save_path = path_join (models_dir self) ''qwen2-vl''
      in seqP
           [logger_info ([CHR 0xF0, CHR 0x9F, CHR 0x9A, CHR 0x80] @ '' Deploying Qwen 2.5 VL...''),
            external env (Import ''transformers''),
            logger_info (''Downloading '' @ model_id @ ''...''),
            external env (TokenizerFromPretrained model_id),
            external env (ModelFromPretrained model_id
                            (if gpu_available self then ''float16'' else ''float32'')
                            (Some (if gpu_available self then ''auto'' else ''cpu''))),
            logger_info (''Saving model to '' @ save_path),
            external env (SavePretrained ''model'' save_path),
            external env (SavePretrained ''tokenizer'' save_path),
            logger_info ([CHR 0xE2, CHR 0x9C, CHR 0x85] @ '' Qwen 2.5 VL deployed successfully!'')])"

definition deploy_ocr_stack :: "env \<Rightarrow> deployer \<Rightarrow> proc" where
  "deploy_ocr_stack env self =
     seqP
       [logger_info ([CHR 0xF0, CHR 0x9F, CHR 0x93, CHR 0x84] @ '' Deploying OCR liberation stack...''),
        external env (Import ''easyocr''),
        logger_info ''Setting up EasyOCR...'',
        external env (EasyOcrReader [''en'', ''ch_sim'', ''es'', ''fr'', ''de'', ''ja'', ''ko'', ''ru'', ''ar'']),
        external env (Import ''doctr.models''),
        logger_info ''Setting up docTR...'',
        external env OcrPredictor,
        logger_info ''Setting up Kraken for historical texts...'',
        external env (Import ''paddleocr''),
        logger_info ''Setting up PaddleOCR...'',
        external env (PaddleOCR (gpu_available self)),
        logger_info ([CHR 0xE2, CHR 0x9C, CHR 0x85] @ '' OCR stack deployed successfully!'')]"

definition deploy_edge_models :: "env \<Rightarrow> deployer \<Rightarrow> proc" where
  "deploy_edge_models env self =
     seqP
       [logger_info ([CHR 0xF0, CHR 0x9F, CHR 0x93, CHR 0xB1] @ '' Deploying edge vision models...''),
        try_except
          (let model_id = ''openbmb/MiniCPM-V-2'';
               save_path = path_join (models_dir self) ''minicpm-v''
           in seqP
                [external env (Import ''transformers''),
                 logger_info (''Downloading '' @ model_id @ ''...''),
                 external env (TokenizerFromPretrained model_id),
                 external env (ModelFromPretrained model_id
                                 (if gpu_available self then ''float16'' else ''float32'') None),
                 external env (SavePretrained ''model'' save_path),
                 external env (SavePretrained ''tokenizer'' save_path),
                 logger_info ([CHR 0xE2, CHR 0x9C, CHR 0x85] @ '' MiniCPM-V deployed!'')])
          (\<lambda>e. logger_error (''Failed to deploy MiniCPM-V: '' @ e))]"

text \<open>
  The text of the template (the literal \<open>api_code\<close> of the source) is a parameter: the
  script writes it and never looks into it.
\<close>

definition api_path :: "deployer \<Rightarrow> string" where
  "api_path self = path_join (path_parent (models_dir self)) ''vision_api.py''"

definition create_unified_api :: "env \<Rightarrow> string \<Rightarrow> deployer \<Rightarrow> proc" where
  "create_unified_api env api_code self =
     seqP
       [logger_info ([CHR 0xF0, CHR 0x9F, CHR 0x94, CHR 0xA7] @ '' Creating unified vision API...''),
        write_file env (api_path self) api_code,
        logger_info ([CHR 0xE2, CHR 0x9C, CHR 0x85] @ '' API created at '' @ api_path self),
        logger_info ''   Run with: python {api_path}'']"

definition deploy_all :: "env \<Rightarrow> string \<Rightarrow> deployer \<Rightarrow> proc" where
  "deploy_all env api_code self =
     seqP
       [logger_info ([CHR 0xF0, CHR 0x9F, CHR 0x9A, CHR 0x80]
                     @ '' Starting complete vision stack deployment...''),
        install_dependencies env self,
        try_except
          (seqP [deploy_qwen_vl env self,
                 logger_info ([CHR 0xE2, CHR 0x9C, CHR 0x85]
                              @ '' Qwen VL ready for multimodal understanding'')])
          (\<lambda>e. logger_error (''Failed to deploy Qwen VL: '' @ e)),
        try_except
          (seqP [deploy_ocr_stack env self,
                 logger_info ([CHR 0xE2, CHR 0x9C, CHR 0x85]
                              @ '' OCR stack ready for document liberation'')])
          (\<lambda>e. logger_error (''Failed to deploy OCR stack: '' @ e)),
        try_except
          (seqP [deploy_edge_models env self,
                 logger_info ([CHR 0xE2, CHR 0x9C, CHR 0x85]
                              @ '' Edge models ready for mobile deployment'')])
          (\<lambda>e. logger_error (''Failed to deploy edge models: '' @ e)),
        create_unified_api env api_code self,
        logger_info ([CHR 0xF0, CHR 0x9F, CHR 0x8E, CHR 0x89] @ '' Vision stack deployment complete!''),
        logger_info ([CHR 0xF0, CHR 0x9F, CHR 0x8C, CHR 0x8D]
                     @ '' Ready to perceive and understand the visual world!''),
        logger_info ([CHR 0xF0, CHR 0x9F, CHR 0x92, CHR 0xA1]
                     @ '' Every image understood, every document liberated!'')]"

text \<open>
  The first line each of the five steps logs, in the order \<open>deploy_all\<close> names the steps,
  and the steps a world's log shows as started.
\<close>

definition step_banners :: "string list" where
  "step_banners =
     [[CHR 0xF0, CHR 0x9F, CHR 0x93, CHR 0xA6] @ '' Installing vision model dependencies...'',
      [CHR 0xF0, CHR 0x9F, CHR 0x9A, CHR 0x80] @ '' Deploying Qwen 2.5 VL...'',
      [CHR 0xF0, CHR 0x9F, CHR 0x93, CHR 0x84] @ '' Deploying OCR liberation stack...'',
      [CHR 0xF0, CHR 0x9F, CHR 0x93, CHR 0xB1] @ '' Deploying edge vision models...'',
      [CHR 0xF0, CHR 0x9F, CHR 0x94, CHR 0xA7] @ '' Creating unified vision API...'']"

definition started :: "world \<Rightarrow> string list" where
  "started w = filter (\<lambda>m. m \<in> set step_banners) (map snd (log w))"

text \<open>The world the script starts in: nothing logged, nothing called, and any files.\<close>

definition world0 :: "(string \<Rightarrow> string option) \<Rightarrow> world" where
  "world0 fs = \<lparr>log = [], calls = [], files = fs\<rparr>"

text \<open>
  Two properties of a method, for the proofs: it starts no step and writes no file; it
  starts the one step \<open>b\<close> and writes no file.
\<close>

definition quiet :: "proc \<Rightarrow> bool" where
  "quiet p \<longleftrightarrow> (\<forall>w. started (snd (p w)) = started w \<and> files (snd (p w)) = files w)"

definition starts :: "string \<Rightarrow> proc \<Rightarrow> bool" where
  "starts b p \<longleftrightarrow> (\<forall>w. started (snd (p w)) = started w @ [b] \<and> files (snd (p w)) = files w)"

section \<open>What the specification says, as definitions\<close>

text \<open>The keys the specification documents for each endpoint's JSON object.\<close>

definition documented_keys :: "endpoint \<Rightarrow> string list" where
  "documented_keys ep =
     (case ep of
        Health \<Rightarrow> [''status'', ''gpu_available'', ''models_loaded'']
      | Generate \<Rightarrow> [''text'', ''tokens_used'', ''model'', ''gpu_used'']
      | GenerateImage \<Rightarrow> [''image_url'', ''prompt'', ''model'', ''gpu_used'']
      | Models \<Rightarrow> [''text_models'', ''image_models'', ''gpu_available''])"

text \<open>A field of a request object, or the default value when the object omits the field.\<close>

definition field_or_default :: "(string \<times> json) list \<Rightarrow> string \<Rightarrow> json \<Rightarrow> json" where
  "field_or_default kvs k d = (case map_of kvs k of None \<Rightarrow> d | Some v \<Rightarrow> v)"

text \<open>
  The three downstream URLs the specification names, and the one each action class
  calls, if it calls any.
\<close>

definition downstream_urls :: "string list" where
  "downstream_urls =
     [''http://localhost:3000/api/orchestrator/tasks'',
      ''http://localhost:3000/api/browser-agent/navigate'',
      ''http://localhost:3000/api/ai/chat'']"

fun target_url :: "action \<Rightarrow> string option" where
  "target_url ActionCreateTask = Some ''http://localhost:3000/api/orchestrator/tasks''"
| "target_url ActionListTasks = Some ''http://localhost:3000/api/orchestrator/tasks''"
| "target_url ActionBrowseWebsite = Some ''http://localhost:3000/api/browser-agent/navigate''"
| "target_url ActionAIResponse = Some ''http://localhost:3000/api/ai/chat''"
| "target_url ActionGenerateImage = Some ''http://localhost:3000/api/ai/chat''"
| "target_url _ = None"

text \<open>
  Running an action twice: the dialogue engine applies the events an action returns to
  the tracker, and \<open>SlotSet k v\<close> stores \<open>v\<close> in the slot \<open>k\<close>.
\<close>

fun apply_event :: "tracker \<Rightarrow> event \<Rightarrow> tracker" where
  "apply_event tr (SlotSet k v) = tr\<lparr>slots := (slots tr)(k \<mapsto> v)\<rparr>"

definition after_run :: "action \<Rightarrow> (json \<Rightarrow> string) \<Rightarrow> network \<Rightarrow> tracker \<Rightarrow> tracker" where
  "after_run a repr net tr =
     (case run a repr net tr of
        Inr out \<Rightarrow> foldl apply_event tr (events out)
      | Inl e \<Rightarrow> tr)"

text \<open>The fixed texts an action utters when its call has failed.\<close>

definition failure_texts :: "action \<Rightarrow> string list" where
  "failure_texts a =
     (case a of
        ActionCreateTask \<Rightarrow> [''Sorry, I couldn't create the task. Please try again.'',
                             ''I'm having trouble connecting to the task service.'']
      | ActionListTasks \<Rightarrow> [''I couldn't retrieve your tasks right now.'']
      | ActionBrowseWebsite \<Rightarrow> [''I had trouble opening that website.'',
                                ''The browser service isn't available right now.'']
      | ActionAIResponse \<Rightarrow> [''I'm having trouble thinking right now. Please try again.'',
                             ''I'm experiencing some technical difficulties. Please try again later.'']
      | ActionGenerateImage \<Rightarrow> [''I couldn't generate the image right now.'',
                                ''The image generation service is unavailable.'']
      | _ \<Rightarrow> [])"

section \<open>Values for the examples\<close>

text \<open>
  What Python's \<open>format\<close> gives for \<open>None\<close> and the booleans. The examples format no
  other value that is not a \<open>str\<close>.
\<close>

definition example_repr :: "json \<Rightarrow> string" where
  "example_repr v =
     (case v of JNull \<Rightarrow> ''None'' | JBool b \<Rightarrow> (if b then ''True'' else ''False'') | _ \<Rightarrow> [])"

text \<open>A network that answers every request alike, and a tracker given by its slots and message.\<close>

definition always :: "exn + response \<Rightarrow> network" where
  "always r rq = r"

definition tracker_of :: "(string \<times> json) list \<Rightarrow> (string \<times> json) list \<Rightarrow> tracker" where
  "tracker_of sl msg = \<lparr>slots = map_of sl, latest_message = msg\<rparr>"

text \<open>
  Two environments of the deployment script, and a disk without files. In the first the
  write of the template file is refused and every other call succeeds; in the second the
  package installer and the file system work and every import, download and model
  construction raises.
\<close>

definition write_denied :: env where
  "write_denied c =
     (if c = WriteFile ''/opt/models/vision_api.py'' then Some ''Permission denied'' else None)"

definition hub_down :: env where
  "hub_down c = (case c of PipInstall args \<Rightarrow> None | WriteFile p \<Rightarrow> None | _ \<Rightarrow> Some ''offline'')"

definition no_files :: "string \<Rightarrow> string option" where
  "no_files p = None"

section \<open>The inference server: properties\<close>

lemma bindE_Inr_iff: "bindE r f = Inr y \<longleftrightarrow> (\<exists>v. r = Inr v \<and> f v = Inr y)"
  by (cases r) (simp_all add: bindE_def)

lemma bindE_Inr [simp]: "bindE (Inr v) f = f v"
  by (simp add: bindE_def)

lemma bindE_Inl [simp]: "bindE (Inl e) f = Inl e"
  by (simp add: bindE_def)

lemma dict_get_Inr_iff:
  "dict_get d k dflt = Inr v \<longleftrightarrow>
     (\<exists>kvs. d = JObj kvs \<and> v = (case map_of kvs k of None \<Rightarrow> dflt | Some x \<Rightarrow> x))"
  by (cases d) auto

lemma str_split_Inr_iff: "str_split p = Inr ws \<longleftrightarrow> (\<exists>s. p = JStr s \<and> ws = split_ws s)"
  by (cases p) auto

text \<open>The shape of whatever \<open>/generate\<close> and \<open>/generate-image\<close> return.\<close>

lemma generate_text_Inr:
  assumes "generate_text repr g req = Inr r"
  shows "\<exists>t n m. r = JObj [(''text'', JStr t), (''tokens_used'', n), (''model'', m),
                           (''gpu_used'', JBool (GPU_AVAILABLE g))]
           \<and> (if GPU_AVAILABLE g then prefix ''Generated response for: '' t
               else prefix ''[Mock H100 Response]'' t)"
  using assms
  by (auto simp: generate_text_def bindE_Inr_iff dict_get_Inr_iff str_split_Inr_iff
           split: if_splits)

lemma generate_image_Inr:
  assumes "generate_image g req = Inr r"
  shows "\<exists>p m. r = JObj [(''image_url'',
                 JStr (if GPU_AVAILABLE g then ''generated_image_url_here''
                       else ''https://via.placeholder.com/1024x1024/FF6B6B/FFFFFF?text=H100+GPU+Not+Available'')),
               (''prompt'', p), (''model'', m), (''gpu_used'', JBool (GPU_AVAILABLE g))]"
  using assms
  by (auto simp: generate_image_def bindE_Inr_iff dict_get_Inr_iff split: if_splits)

text \<open>
  C1, as the specification states it, fails: it speaks of every POST request, and on a
  body that is JSON and not an object (here \<open>null\<close>) both handlers raise at the first
  \<open>data.get\<close>, before \<open>GPU_AVAILABLE\<close> is looked at. With the flag true or false the
  outcome is the same exception: neither branch is taken and no \<open>gpu_used\<close> is returned.
\<close>

theorem no_branch_on_non_object_body:
  "generate_text example_repr (init_globals True :: unit globals) \<lparr>request_json = Inr JNull\<rparr>
     = Inl AttributeError
   \<and> generate_text example_repr (init_globals False :: unit globals) \<lparr>request_json = Inr JNull\<rparr>
     = Inl AttributeError
   \<and> generate_image (init_globals True :: unit globals) \<lparr>request_json = Inr JNull\<rparr>
     = Inl AttributeError
   \<and> generate_image (init_globals False :: unit globals) \<lparr>request_json = Inr JNull\<rparr>
     = Inl AttributeError"
  by (simp add: generate_text_def generate_image_def)

text \<open>
  C1, amended. On every POST request whose body is a JSON object the branch follows the
  flag. With \<open>GPU_AVAILABLE\<close> true both handlers return the response of the unimplemented
  inference branch, with \<open>gpu_used\<close> true. With \<open>GPU_AVAILABLE\<close> false
  \<open>/generate-image\<close> returns the placeholder response and \<open>/generate\<close> runs the mock
  branch: it returns the mock response, with a number for \<open>tokens_used\<close>, when the prompt
  is a string, and raises at \<open>prompt.split()\<close> otherwise; \<open>gpu_used\<close> is false. And on any request at all, whatever a handler returns has \<open>gpu_used\<close> equal to
  \<open>GPU_AVAILABLE\<close> and is the mock response exactly when the flag is false.
\<close>

theorem branch_follows_gpu:
  "(request_json req = Inr (JObj kvs) \<longrightarrow>
      (GPU_AVAILABLE g \<longrightarrow>
         (\<exists>t m. generate_text repr g req
                  = Inr (JObj [(''text'', JStr (''Generated response for: '' @ t)),
                               (''tokens_used'', field_or_default kvs ''max_tokens'' (JInt 1000)),
                               (''model'', m),
                               (''gpu_used'', JBool True)]))
         \<and> (\<exists>p m. generate_image g req
                    = Inr (JObj [(''image_url'', JStr ''generated_image_url_here''),
                                 (''prompt'', p), (''model'', m), (''gpu_used'', JBool True)])))
      \<and> (\<not> GPU_AVAILABLE g \<longrightarrow>
         (\<exists>p m. generate_image g req
                  = Inr (JObj [(''image_url'',
                                  JStr ''https://via.placeholder.com/1024x1024/FF6B6B/FFFFFF?text=H100+GPU+Not+Available''),
                               (''prompt'', p), (''model'', m), (''gpu_used'', JBool False)]))
         \<and> (case field_or_default kvs ''prompt'' (JStr []) of
               JStr s \<Rightarrow>
                 (\<exists>t n m. generate_text repr g req
                            = Inr (JObj [(''text'', JStr (''[Mock H100 Response]'' @ t)),
                                         (''tokens_used'', JInt n),
                                         (''model'', m),
                                         (''gpu_used'', JBool False)]))
             | _ \<Rightarrow> generate_text repr g req = Inl AttributeError)))
   \<and> (generate_text repr g req = Inr r \<longrightarrow>
      dict_get r ''gpu_used'' JNull = Inr (JBool (GPU_AVAILABLE g))
      \<and> ((\<exists>t. dict_get r ''text'' JNull = Inr (JStr (''[Mock H100 Response]'' @ t)))
             \<longleftrightarrow> \<not> GPU_AVAILABLE g)
      \<and> ((\<exists>t. dict_get r ''text'' JNull = Inr (JStr (''Generated response for: '' @ t)))
             \<longleftrightarrow> GPU_AVAILABLE g))
   \<and> (generate_image g req = Inr r' \<longrightarrow>
      dict_get r' ''gpu_used'' JNull = Inr (JBool (GPU_AVAILABLE g))
      \<and> (dict_get r' ''image_url'' JNull
            = Inr (JStr ''https://via.placeholder.com/1024x1024/FF6B6B/FFFFFF?text=H100+GPU+Not+Available'')
             \<longleftrightarrow> \<not> GPU_AVAILABLE g)
      \<and> (dict_get r' ''image_url'' JNull = Inr (JStr ''generated_image_url_here'')
             \<longleftrightarrow> GPU_AVAILABLE g))"
proof (intro conjI)
  show "request_json req = Inr (JObj kvs) \<longrightarrow>
      (GPU_AVAILABLE g \<longrightarrow>
         (\<exists>t m. generate_text repr g req
                  = Inr (JObj [(''text'', JStr (''Generated response for: '' @ t)),
                               (''tokens_used'', field_or_default kvs ''max_tokens'' (JInt 1000)),
                               (''model'', m),
                               (''gpu_used'', JBool True)]))
         \<and> (\<exists>p m. generate_image g req
                    = Inr (JObj [(''image_url'', JStr ''generated_image_url_here''),
                                 (''prompt'', p), (''model'', m), (''gpu_used'', JBool True)])))
      \<and> (\<not> GPU_AVAILABLE g \<longrightarrow>
         (\<exists>p m. generate_image g req
                  = Inr (JObj [(''image_url'',
                                  JStr ''https://via.placeholder.com/1024x1024/FF6B6B/FFFFFF?text=H100+GPU+Not+Available''),
                               (''prompt'', p), (''model'', m), (''gpu_used'', JBool False)]))
         \<and> (case field_or_default kvs ''prompt'' (JStr []) of
               JStr s \<Rightarrow>
                 (\<exists>t n m. generate_text repr g req
                            = Inr (JObj [(''text'', JStr (''[Mock H100 Response]'' @ t)),
                                         (''tokens_used'', JInt n),
                                         (''model'', m),
                                         (''gpu_used'', JBool False)]))
             | _ \<Rightarrow> generate_text repr g req = Inl AttributeError))"
    by (cases "field_or_default kvs ''prompt'' (JStr [])")
       (simp_all add: generate_text_def generate_image_def field_or_default_def)
next
  show "generate_text repr g req = Inr r \<longrightarrow>
      dict_get r ''gpu_used'' JNull = Inr (JBool (GPU_AVAILABLE g))
      \<and> ((\<exists>t. dict_get r ''text'' JNull = Inr (JStr (''[Mock H100 Response]'' @ t)))
             \<longleftrightarrow> \<not> GPU_AVAILABLE g)
      \<and> ((\<exists>t. dict_get r ''text'' JNull = Inr (JStr (''Generated response for: '' @ t)))
             \<longleftrightarrow> GPU_AVAILABLE g)"
  proof
    assume a: "generate_text repr g req = Inr r"
    from generate_text_Inr [OF a] obtain t n m where
      r: "r = JObj [(''text'', JStr t), (''tokens_used'', n), (''model'', m),
                    (''gpu_used'', JBool (GPU_AVAILABLE g))]"
      and t: "if GPU_AVAILABLE g then prefix ''Generated response for: '' t
              else prefix ''[Mock H100 Response]'' t"
      by blast
    have 1: "dict_get r ''gpu_used'' JNull = Inr (JBool (GPU_AVAILABLE g))"
      by (simp add: r)
    have 2: "(\<exists>t. dict_get r ''text'' JNull = Inr (JStr (''[Mock H100 Response]'' @ t)))
            \<longleftrightarrow> \<not> GPU_AVAILABLE g"
      using t by (cases "GPU_AVAILABLE g") (auto simp: r prefix_def)
    have 3: "(\<exists>t. dict_get r ''text'' JNull = Inr (JStr (''Generated response for: '' @ t)))
            \<longleftrightarrow> GPU_AVAILABLE g"
      using t by (cases "GPU_AVAILABLE g") (auto simp: r prefix_def)
    from 1 2 3
    show "dict_get r ''gpu_used'' JNull = Inr (JBool (GPU_AVAILABLE g))
      \<and> ((\<exists>t. dict_get r ''text'' JNull = Inr (JStr (''[Mock H100 Response]'' @ t)))
             \<longleftrightarrow> \<not> GPU_AVAILABLE g)
      \<and> ((\<exists>t. dict_get r ''text'' JNull = Inr (JStr (''Generated response for: '' @ t)))
             \<longleftrightarrow> GPU_AVAILABLE g)"
      by blast
  qed
next
  show "generate_image g req = Inr r' \<longrightarrow>
      dict_get r' ''gpu_used'' JNull = Inr (JBool (GPU_AVAILABLE g))
      \<and> (dict_get r' ''image_url'' JNull
            = Inr (JStr ''https://via.placeholder.com/1024x1024/FF6B6B/FFFFFF?text=H100+GPU+Not+Available'')
             \<longleftrightarrow> \<not> GPU_AVAILABLE g)
      \<and> (dict_get r' ''image_url'' JNull = Inr (JStr ''generated_image_url_here'')
             \<longleftrightarrow> GPU_AVAILABLE g)"
  proof
    assume a: "generate_image g req = Inr r'"
    from generate_image_Inr [OF a] obtain p m where
      r: "r' = JObj [(''image_url'',
                   JStr (if GPU_AVAILABLE g then ''generated_image_url_here''
                         else ''https://via.placeholder.com/1024x1024/FF6B6B/FFFFFF?text=H100+GPU+Not+Available'')),
                 (''prompt'', p), (''model'', m), (''gpu_used'', JBool (GPU_AVAILABLE g))]"
      by blast
    show "dict_get r' ''gpu_used'' JNull = Inr (JBool (GPU_AVAILABLE g))
      \<and> (dict_get r' ''image_url'' JNull
            = Inr (JStr ''https://via.placeholder.com/1024x1024/FF6B6B/FFFFFF?text=H100+GPU+Not+Available'')
             \<longleftrightarrow> \<not> GPU_AVAILABLE g)
      \<and> (dict_get r' ''image_url'' JNull = Inr (JStr ''generated_image_url_here'')
             \<longleftrightarrow> GPU_AVAILABLE g)"
      by (simp add: r)
  qed
qed

text \<open>
  The request \<open>{"prompt": "a cat"}\<close> with an accelerator and without one: with it both
  handlers give the response of the inference branch, without it the mock response.
\<close>

theorem branch_follows_gpu_witness:
  "request_json \<lparr>request_json = Inr (JObj [(''prompt'', JStr ''a cat'')])\<rparr>
     = Inr (JObj [(''prompt'', JStr ''a cat'')])
   \<and> GPU_AVAILABLE (init_globals True :: unit globals)
   \<and> generate_text example_repr (init_globals True :: unit globals)
         \<lparr>request_json = Inr (JObj [(''prompt'', JStr ''a cat'')])\<rparr>
       = Inr (JObj [(''text'', JStr ''Generated response for: a cat''),
                    (''tokens_used'', JInt 1000),
                    (''model'', JStr ''default''),
                    (''gpu_used'', JBool True)])
   \<and> generate_image (init_globals True :: unit globals)
         \<lparr>request_json = Inr (JObj [(''prompt'', JStr ''a cat'')])\<rparr>
       = Inr (JObj [(''image_url'', JStr ''generated_image_url_here''),
                    (''prompt'', JStr ''a cat''),
                    (''model'', JStr ''stable-diffusion-2.1''),
                    (''gpu_used'', JBool True)])
   \<and> dict_get (JObj [(''text'', JStr ''Generated response for: a cat''),
                      (''tokens_used'', JInt 1000),
                      (''model'', JStr ''default''),
                      (''gpu_used'', JBool True)]) ''gpu_used'' JNull
       = Inr (JBool (GPU_AVAILABLE (init_globals True :: unit globals)))
   \<and> \<not> GPU_AVAILABLE (init_globals False :: unit globals)
   \<and> generate_text example_repr (init_globals False :: unit globals)
         \<lparr>request_json = Inr (JObj [(''prompt'', JStr ''a cat'')])\<rparr>
       = Inr (JObj [(''text'', JStr (''[Mock H100 Response] I would generate text for: ''
                                     @ [CHR 0x27] @ ''a cat'' @ [CHR 0x27] @ '' using model default'')),
                    (''tokens_used'', JInt 4),
                    (''model'', JStr ''default''),
                    (''gpu_used'', JBool False)])
   \<and> generate_image (init_globals False :: unit globals)
         \<lparr>request_json = Inr (JObj [(''prompt'', JStr ''a cat'')])\<rparr>
       = Inr (JObj [(''image_url'',
                       JStr ''https://via.placeholder.com/1024x1024/FF6B6B/FFFFFF?text=H100+GPU+Not+Available''),
                    (''prompt'', JStr ''a cat''),
                    (''model'', JStr ''stable-diffusion-2.1''),
                    (''gpu_used'', JBool False)])
   \<and> dict_get (JObj [(''image_url'',
                       JStr ''https://via.placeholder.com/1024x1024/FF6B6B/FFFFFF?text=H100+GPU+Not+Available''),
                      (''prompt'', JStr ''a cat''),
                      (''model'', JStr ''stable-diffusion-2.1''),
                      (''gpu_used'', JBool False)]) ''gpu_used'' JNull
       = Inr (JBool (GPU_AVAILABLE (init_globals False :: unit globals)))"
proof -
  let ?kvs = "[(''prompt'', JStr ''a cat'')]"
  let ?req = "\<lparr>request_json = Inr (JObj ?kvs)\<rparr>"
  let ?on = "init_globals True :: unit globals"
  let ?off = "init_globals False :: unit globals"
  let ?real_text = "JObj [(''text'', JStr ''Generated response for: a cat''),
                          (''tokens_used'', JInt 1000),
                          (''model'', JStr ''default''),
                          (''gpu_used'', JBool True)]"
  let ?real_image = "JObj [(''image_url'', JStr ''generated_image_url_here''),
                           (''prompt'', JStr ''a cat''),
                           (''model'', JStr ''stable-diffusion-2.1''),
                           (''gpu_used'', JBool True)]"
  let ?mock_text = "JObj [(''text'', JStr (''[Mock H100 Response] I would generate text for: ''
                                     @ [CHR 0x27] @ ''a cat'' @ [CHR 0x27] @ '' using model default'')),
                          (''tokens_used'', JInt 4),
                          (''model'', JStr ''default''),
                          (''gpu_used'', JBool False)]"
  let ?mock_image = "JObj [(''image_url'',
                       JStr ''https://via.placeholder.com/1024x1024/FF6B6B/FFFFFF?text=H100+GPU+Not+Available''),
                           (''prompt'', JStr ''a cat''),
                           (''model'', JStr ''stable-diffusion-2.1''),
                           (''gpu_used'', JBool False)]"
  have b: "request_json ?req = Inr (JObj ?kvs)"
    by simp
  have on: "GPU_AVAILABLE ?on"
    by (simp add: init_globals_def)
  have off: "\<not> GPU_AVAILABLE ?off"
    by (simp add: init_globals_def)
  have t1: "generate_text example_repr ?on ?req = Inr ?real_text"
    by code_simp
  have i1: "generate_image ?on ?req = Inr ?real_image"
    by code_simp
  have t0: "generate_text example_repr ?off ?req = Inr ?mock_text"
    by code_simp
  have i0: "generate_image ?off ?req = Inr ?mock_image"
    by code_simp
  note on_thm = branch_follows_gpu [where req = ?req and kvs = ?kvs and g = ?on
                                      and repr = example_repr and r = ?real_text
                                      and r' = ?real_image]
  note off_thm = branch_follows_gpu [where req = ?req and kvs = ?kvs and g = ?off
                                       and repr = example_repr and r = ?mock_text
                                       and r' = ?mock_image]
  from on_thm b on have "\<exists>p m. generate_image ?on ?req
          = Inr (JObj [(''image_url'', JStr ''generated_image_url_here''),
                       (''prompt'', p), (''model'', m), (''gpu_used'', JBool True)])"
    by blast
  from off_thm b off have "\<exists>p m. generate_image ?off ?req
          = Inr (JObj [(''image_url'',
                          JStr ''https://via.placeholder.com/1024x1024/FF6B6B/FFFFFF?text=H100+GPU+Not+Available''),
                       (''prompt'', p), (''model'', m), (''gpu_used'', JBool False)])"
    by blast
  from on_thm t1 have g1: "dict_get ?real_text ''gpu_used'' JNull = Inr (JBool (GPU_AVAILABLE ?on))"
    by blast
  from off_thm i0 have g0: "dict_get ?mock_image ''gpu_used'' JNull = Inr (JBool (GPU_AVAILABLE ?off))"
    by blast
  from b on t1 i1 g1 off t0 i0 g0 show ?thesis
    by blast
qed

text \<open>
  C2. Every endpoint that returns, returns a JSON object whose keys are exactly the
  documented ones; \<open>/health\<close> and \<open>/models\<close> return on every request.
\<close>

theorem endpoint_keys:
  "(handle repr g ep req = Inr r \<longrightarrow>
      (\<exists>kvs. r = JObj kvs \<and> map fst kvs = documented_keys ep))
   \<and> (\<exists>r. handle repr g Health req = Inr r)
   \<and> (\<exists>r. handle repr g Models req = Inr r)"
proof (intro conjI)
  show "handle repr g ep req = Inr r \<longrightarrow>
          (\<exists>kvs. r = JObj kvs \<and> map fst kvs = documented_keys ep)"
  proof (cases ep)
    case Health
    then show ?thesis by (auto simp: health_def documented_keys_def)
  next
    case Generate
    then show ?thesis by (auto simp: documented_keys_def dest!: generate_text_Inr)
  next
    case GenerateImage
    then show ?thesis by (auto simp: documented_keys_def dest!: generate_image_Inr)
  next
    case Models
    then show ?thesis by (auto simp: list_models_def documented_keys_def)
  qed
qed simp_all

text \<open>The request \<open>{}\<close> to \<open>/generate-image\<close> with an accelerator.\<close>

theorem endpoint_keys_witness:
  "handle example_repr (init_globals True :: unit globals) GenerateImage
       \<lparr>request_json = Inr (JObj [])\<rparr>
     = Inr (JObj [(''image_url'', JStr ''generated_image_url_here''),
                  (''prompt'', JStr []),
                  (''model'', JStr ''stable-diffusion-2.1''),
                  (''gpu_used'', JBool True)])
   \<and> map fst [(''image_url'', JStr ''generated_image_url_here''),
               (''prompt'', JStr []),
               (''model'', JStr ''stable-diffusion-2.1''),
               (''gpu_used'', JBool True)]
     = documented_keys GenerateImage"
proof -
  let ?kvs = "[(''image_url'', JStr ''generated_image_url_here''),
               (''prompt'', JStr []),
               (''model'', JStr ''stable-diffusion-2.1''),
               (''gpu_used'', JBool True)]"
  have h: "handle example_repr (init_globals True :: unit globals) GenerateImage
             \<lparr>request_json = Inr (JObj [])\<rparr> = Inr (JObj ?kvs)"
    by code_simp
  from endpoint_keys [of example_repr "init_globals True :: unit globals" GenerateImage
                         "\<lparr>request_json = Inr (JObj [])\<rparr>" "JObj ?kvs"] h
  have "map fst ?kvs = documented_keys GenerateImage"
    by auto
  with h show ?thesis by simp
qed

text \<open>
  C4, as the specification states it, fails: a body that is valid JSON and not an
  object (here \<open>[]\<close>) makes both handlers raise at the first \<open>data.get\<close>, with or
  without an accelerator, and without an accelerator so does \<open>{"prompt": null}\<close> at
  \<open>prompt.split()\<close>.
\<close>

theorem malformed_body_raises:
  "generate_text example_repr (init_globals True :: unit globals)
       \<lparr>request_json = Inr (JArr [])\<rparr> = Inl AttributeError
   \<and> generate_image (init_globals True :: unit globals)
       \<lparr>request_json = Inr (JArr [])\<rparr> = Inl AttributeError
   \<and> generate_text example_repr (init_globals False :: unit globals)
       \<lparr>request_json = Inr (JObj [(''prompt'', JNull)])\<rparr> = Inl AttributeError"
  by (simp add: generate_text_def generate_image_def init_globals_def)

text \<open>
  C4, amended. On a body that is a JSON object every omitted field takes its default
  (prompt \<open>''\<close>, model \<open>default\<close> or \<open>stable-diffusion-2.1\<close>, max_tokens 1000);
  \<open>/generate-image\<close> then returns, and \<open>/generate\<close> returns when \<open>GPU_AVAILABLE\<close> is
  true or the prompt is a string.
\<close>

theorem object_body_defaults:
  "generate_image g \<lparr>request_json = Inr (JObj kvs)\<rparr>
     = Inr (JObj [(''image_url'',
                     JStr (if GPU_AVAILABLE g then ''generated_image_url_here''
                           else ''https://via.placeholder.com/1024x1024/FF6B6B/FFFFFF?text=H100+GPU+Not+Available'')),
                  (''prompt'', field_or_default kvs ''prompt'' (JStr [])),
                  (''model'', field_or_default kvs ''model'' (JStr ''stable-diffusion-2.1'')),
                  (''gpu_used'', JBool (GPU_AVAILABLE g))])
   \<and> (GPU_AVAILABLE g \<longrightarrow>
        generate_text repr g \<lparr>request_json = Inr (JObj kvs)\<rparr>
          = Inr (JObj [(''text'', JStr (''Generated response for: ''
                          @ format_value repr (field_or_default kvs ''prompt'' (JStr [])))),
                       (''tokens_used'', field_or_default kvs ''max_tokens'' (JInt 1000)),
                       (''model'', field_or_default kvs ''model'' (JStr ''default'')),
                       (''gpu_used'', JBool True)]))
   \<and> (\<not> GPU_AVAILABLE g \<and> field_or_default kvs ''prompt'' (JStr []) = JStr p \<longrightarrow>
        generate_text repr g \<lparr>request_json = Inr (JObj kvs)\<rparr>
          = Inr (JObj [(''text'', JStr (''[Mock H100 Response] I would generate text for: ''
                          @ [CHR 0x27] @ p @ [CHR 0x27] @ '' using model ''
                          @ format_value repr (field_or_default kvs ''model'' (JStr ''default'')))),
                       (''tokens_used'', JInt (int (length (split_ws p)) * 2)),
                       (''model'', field_or_default kvs ''model'' (JStr ''default'')),
                       (''gpu_used'', JBool False)]))"
  by (simp add: generate_image_def generate_text_def field_or_default_def)

text \<open>The body \<open>{}\<close>, which omits every field, with and without an accelerator.\<close>

theorem object_body_defaults_witness:
  "GPU_AVAILABLE (init_globals True :: unit globals)
   \<and> generate_text example_repr (init_globals True :: unit globals) \<lparr>request_json = Inr (JObj [])\<rparr>
       = Inr (JObj [(''text'', JStr ''Generated response for: ''),
                    (''tokens_used'', JInt 1000),
                    (''model'', JStr ''default''),
                    (''gpu_used'', JBool True)])
   \<and> \<not> GPU_AVAILABLE (init_globals False :: unit globals)
   \<and> field_or_default [] ''prompt'' (JStr []) = JStr []
   \<and> generate_text example_repr (init_globals False :: unit globals) \<lparr>request_json = Inr (JObj [])\<rparr>
       = Inr (JObj [(''text'', JStr (''[Mock H100 Response] I would generate text for: ''
                                     @ [CHR 0x27, CHR 0x27] @ '' using model default'')),
                    (''tokens_used'', JInt 0),
                    (''model'', JStr ''default''),
                    (''gpu_used'', JBool False)])"
proof -
  have a: "GPU_AVAILABLE (init_globals True :: unit globals)"
    by (simp add: init_globals_def)
  have b: "\<not> GPU_AVAILABLE (init_globals False :: unit globals)
           \<and> field_or_default [] ''prompt'' (JStr []) = JStr []"
    by (simp add: init_globals_def field_or_default_def)
  have s: "split_ws [] = []"
    by (simp add: split_ws.simps)
  from object_body_defaults [where g = "init_globals True :: unit globals" and kvs = "[]"
                               and repr = example_repr and p = "[]"] a
  have 1: "generate_text example_repr (init_globals True :: unit globals) \<lparr>request_json = Inr (JObj [])\<rparr>
       = Inr (JObj [(''text'', JStr ''Generated response for: ''),
                    (''tokens_used'', JInt 1000),
                    (''model'', JStr ''default''),
                    (''gpu_used'', JBool True)])"
    by (simp add: field_or_default_def)
  from object_body_defaults [where g = "init_globals False :: unit globals" and kvs = "[]"
                               and repr = example_repr and p = "[]"] b s
  have 2: "generate_text example_repr (init_globals False :: unit globals) \<lparr>request_json = Inr (JObj [])\<rparr>
       = Inr (JObj [(''text'', JStr (''[Mock H100 Response] I would generate text for: ''
                                     @ [CHR 0x27, CHR 0x27] @ '' using model default'')),
                    (''tokens_used'', JInt 0),
                    (''model'', JStr ''default''),
                    (''gpu_used'', JBool False)])"
    by (simp add: field_or_default_def)
  from a b 1 2 show ?thesis by simp
qed

text \<open>
  C6. Each handler, run as a step on the module state, gives the result of the handler
  as a function of the names it reads and of its request, and leaves every module-level
  name as it was. So serving any sequence of requests leaves the module state unchanged,
  each response is the one the handler gives on the initial state whatever was served
  before, and a request served again on the state its first run left gets the same
  response.
\<close>

theorem handlers_stateless:
  "handle_st repr ep req g = (handle repr g ep req, g)
   \<and> serve_all repr g rs = (map (\<lambda>r. handle repr g (fst r) (snd r)) rs, g)
   \<and> fst (handle_st repr ep req (snd (handle_st repr ep req g))) = fst (handle_st repr ep req g)"
proof -
  have step: "handle_st repr ep req g = (handle repr g ep req, g)" for ep req and g :: "'a globals"
  proof (cases ep)
    case Health
    then show ?thesis
      by (simp add: health_st_def health_def bindS_def readS_def localS_def)
  next
    case Generate
    then show ?thesis
      by (cases "request_json req")
         (auto simp: generate_text_st_def generate_text_def bindS_def readS_def localS_def
                     bindE_def split: sum.splits)
  next
    case GenerateImage
    then show ?thesis
      by (cases "request_json req")
         (auto simp: generate_image_st_def generate_image_def bindS_def readS_def localS_def
                     bindE_def split: sum.splits)
  next
    case Models
    then show ?thesis
      by (simp add: list_models_st_def list_models_def bindS_def readS_def localS_def)
  qed
  have "serve_all repr g rs = (map (\<lambda>r. handle repr g (fst r) (snd r)) rs, g)"
    by (induction rs) (simp_all add: step)
  then show ?thesis by (simp add: step)
qed

text \<open>
  The statement is about these handlers and not about steps in general: a handler that
  assigned a module-level name before answering would leave another state behind.
\<close>

lemma assigning_step_changes_state:
  "snd (bindS (assignS (\<lambda>g. g\<lparr>GPU_AVAILABLE := \<not> GPU_AVAILABLE g\<rparr>)) (\<lambda>u. health_st) g) \<noteq> g"
proof -
  have "GPU_AVAILABLE (snd (bindS (assignS (\<lambda>g. g\<lparr>GPU_AVAILABLE := \<not> GPU_AVAILABLE g\<rparr>))
                              (\<lambda>u. health_st) g))
          = (\<not> GPU_AVAILABLE g)"
    by (simp add: bindS_def assignS_def health_st_def readS_def localS_def)
  then show ?thesis by auto
qed

text \<open>
  C8. Both loaders return the empty dictionary whatever accelerator detection found, so
  after the module's initialisation \<open>/health\<close> reports \<open>models_loaded\<close> false and
  \<open>/models\<close> lists \<open>none_loaded\<close> for both kinds, on every request.
\<close>

theorem models_never_loaded:
  "load_text_models gpu = ([] :: (string \<times> 'm) list)
   \<and> load_image_models gpu = ([] :: (string \<times> 'm) list)
   \<and> handle repr (init_globals gpu :: 'm globals) Health req
       = Inr (JObj [(''status'', JStr ''ok''), (''gpu_available'', JBool gpu),
                    (''models_loaded'', JBool False)])
   \<and> handle repr (init_globals gpu :: 'm globals) Models req
       = Inr (JObj [(''text_models'', JArr [JStr ''none_loaded'']),
                    (''image_models'', JArr [JStr ''none_loaded'']),
                    (''gpu_available'', JBool gpu)])"
  by (simp add: load_text_models_def load_image_models_def init_globals_def health_def
                list_models_def dict_or_def)


section \<open>The dialogue actions: properties\<close>

text \<open>
  C3 holds for four of the five calling actions and fails for \<open>ActionListTasks\<close>: its
  \<open>if response.ok\<close> has no \<open>else\<close>, so on an answer with an error status the action
  says nothing at all. Here the task service answers with an error status and a
  JSON error body.
\<close>

theorem list_tasks_silent_on_error_status:
  "run ActionListTasks example_repr
       (always (Inr \<lparr>ok = False, body = Inr (JObj [(''error'', JStr ''Internal Server Error'')])\<rparr>))
       (tracker_of [] [(''text'', JStr ''show my tasks'')])
     = Inr \<lparr>messages = [], events = [],
            sent = [\<lparr>meth = GET, url = ''http://localhost:3000/api/orchestrator/tasks'',
                     payload = None\<rparr>]\<rparr>"
  by (simp add: ActionListTasks_run_def always_def)

text \<open>
  The sibling actions do what \<open>ActionListTasks\<close> misses: when their call raises or is
  answered with an error status, they utter one fixed text and return no event. So does
  \<open>ActionListTasks\<close> itself when its call raises.
\<close>

lemma failed_call_one_static_reply:
  assumes "run a repr net tr = Inr out" and "sent out = [rq]"
    and "(\<exists>e. net rq = Inl e) \<or> (a \<noteq> ActionListTasks \<and> (\<exists>resp. net rq = Inr resp \<and> \<not> ok resp))"
  shows "\<exists>m. messages out = [JStr m] \<and> m \<in> set (failure_texts a) \<and> events out = []"
proof (cases a)
  case ActionCreateTask
  with assms show ?thesis
    by (auto simp: ActionCreateTask_run_def utter_def failure_texts_def Let_def
             split: if_splits sum.splits)
next
  case ActionListTasks
  with assms show ?thesis
    by (auto simp: ActionListTasks_run_def utter_def failure_texts_def Let_def
             split: if_splits sum.splits)
next
  case ActionBrowseWebsite
  with assms show ?thesis
    by (auto simp: ActionBrowseWebsite_run_def utter_def failure_texts_def Let_def
             split: if_splits sum.splits json.splits)
next
  case ActionAIResponse
  with assms show ?thesis
    by (auto simp: ActionAIResponse_run_def utter_def failure_texts_def Let_def
             split: if_splits sum.splits)
next
  case ActionGenerateImage
  with assms show ?thesis
    by (auto simp: ActionGenerateImage_run_def utter_def failure_texts_def Let_def
             split: if_splits sum.splits json.splits)
qed (use assms in \<open>auto simp: ActionToggleConversationMode_run_def ActionToggleAutoSpeak_run_def
      ActionChangeVoice_run_def ActionAnalyzeDocument_run_def ActionBuildApp_run_def utter_def
      Let_def split: if_splits\<close>)

text \<open>
  C7. Every request an action issues goes to the one URL of its class, that URL is one
  of the three downstream URLs, and no action issues more than one request; the tracker
  (the user's message and the slots) and the network's answers have no part in it.
\<close>

theorem requests_target_fixed_urls:
  "run a repr net tr = Inr out \<longrightarrow>
     length (sent out) \<le> 1
     \<and> (\<forall>rq \<in> set (sent out). target_url a = Some (url rq) \<and> url rq \<in> set downstream_urls)"
proof (cases a)
  case ActionCreateTask
  then show ?thesis
    by (auto simp: ActionCreateTask_run_def utter_def downstream_urls_def Let_def
             split: if_splits sum.splits)
next
  case ActionListTasks
  then show ?thesis
    by (auto simp: ActionListTasks_run_def utter_def downstream_urls_def Let_def
             split: if_splits sum.splits)
next
  case ActionBrowseWebsite
  then show ?thesis
    by (auto simp: ActionBrowseWebsite_run_def utter_def downstream_urls_def Let_def
             split: if_splits sum.splits json.splits)
next
  case ActionAIResponse
  then show ?thesis
    by (auto simp: ActionAIResponse_run_def utter_def downstream_urls_def Let_def
             split: if_splits sum.splits)
next
  case ActionGenerateImage
  then show ?thesis
    by (auto simp: ActionGenerateImage_run_def utter_def downstream_urls_def Let_def
             split: if_splits sum.splits json.splits)
qed (auto simp: ActionToggleConversationMode_run_def ActionToggleAutoSpeak_run_def
      ActionChangeVoice_run_def ActionAnalyzeDocument_run_def ActionBuildApp_run_def utter_def
      Let_def split: if_splits)

text \<open>The user says \<open>hello\<close> and the chat service refuses the connection.\<close>

theorem requests_target_fixed_urls_witness:
  "run ActionAIResponse example_repr (always (Inl (External ''Connection refused'')))
       (tracker_of [] [(''text'', JStr ''hello'')])
     = Inr \<lparr>messages = [JStr ''I'm experiencing some technical difficulties. Please try again later.''],
            events = [],
            sent = [\<lparr>meth = POST, url = ''http://localhost:3000/api/ai/chat'',
                     payload = Some (JObj [(''prompt'', JStr ''hello''),
                                           (''model'', JStr ''auto''),
                                           (''task_type'', JStr ''general''),
                                           (''complexity'', JStr ''medium''),
                                           (''quality'', JStr ''standard'')])\<rparr>]\<rparr>
   \<and> target_url ActionAIResponse = Some ''http://localhost:3000/api/ai/chat''
   \<and> ''http://localhost:3000/api/ai/chat'' \<in> set downstream_urls"
proof -
  let ?rq = "\<lparr>meth = POST, url = ''http://localhost:3000/api/ai/chat'',
               payload = Some (JObj [(''prompt'', JStr ''hello''),
                                     (''model'', JStr ''auto''),
                                     (''task_type'', JStr ''general''),
                                     (''complexity'', JStr ''medium''),
                                     (''quality'', JStr ''standard'')])\<rparr>"
  let ?out = "\<lparr>messages = [JStr ''I'm experiencing some technical difficulties. Please try again later.''],
                events = [], sent = [?rq]\<rparr>"
  have r: "run ActionAIResponse example_repr (always (Inl (External ''Connection refused'')))
             (tracker_of [] [(''text'', JStr ''hello'')]) = Inr ?out"
    by (simp add: ActionAIResponse_run_def always_def tracker_of_def latest_text_def utter_def)
  from requests_target_fixed_urls
         [of ActionAIResponse example_repr "always (Inl (External ''Connection refused''))"
             "tracker_of [] [(''text'', JStr ''hello'')]" ?out] r
  have "target_url ActionAIResponse = Some (url ?rq) \<and> url ?rq \<in> set downstream_urls"
    by simp
  with r show ?thesis by simp
qed

text \<open>
  C9. Each toggle returns one \<open>SlotSet\<close> event, for its own slot, whose value is the
  negation of the truthiness of the slot's value. Run twice on a boolean value it gives
  the value back; on an unset slot it gives \<open>True\<close>, and run again \<open>False\<close>.
\<close>

theorem toggle_negates_truthiness:
  "(a = ActionToggleConversationMode \<and> k = ''conversation_mode''
      \<or> a = ActionToggleAutoSpeak \<and> k = ''auto_speak'') \<longrightarrow>
     run a repr net tr
       = Inr \<lparr>messages = [], events = [SlotSet k (JBool (\<not> truthy (get_slot tr k)))], sent = []\<rparr>
     \<and> (get_slot tr k = JBool b \<longrightarrow>
          get_slot (after_run a repr net (after_run a repr net tr)) k = JBool b)
     \<and> (get_slot tr k = JNull \<longrightarrow>
          get_slot (after_run a repr net tr) k = JBool True
          \<and> get_slot (after_run a repr net (after_run a repr net tr)) k = JBool False)"
  by (auto simp: ActionToggleConversationMode_run_def ActionToggleAutoSpeak_run_def
                 after_run_def get_slot_def Let_def)

text \<open>The auto-speak toggle on a tracker whose slot is unset, and on one where it is on.\<close>

theorem toggle_negates_truthiness_witness:
  "get_slot (tracker_of [] []) ''auto_speak'' = JNull
   \<and> run ActionToggleAutoSpeak example_repr (always (Inl TypeError)) (tracker_of [] [])
       = Inr \<lparr>messages = [], events = [SlotSet ''auto_speak'' (JBool True)], sent = []\<rparr>
   \<and> get_slot (after_run ActionToggleAutoSpeak example_repr (always (Inl TypeError))
                 (after_run ActionToggleAutoSpeak example_repr (always (Inl TypeError))
                    (tracker_of [] []))) ''auto_speak'' = JBool False
   \<and> get_slot (tracker_of [(''auto_speak'', JBool True)] []) ''auto_speak'' = JBool True
   \<and> get_slot (after_run ActionToggleAutoSpeak example_repr (always (Inl TypeError))
                 (after_run ActionToggleAutoSpeak example_repr (always (Inl TypeError))
                    (tracker_of [(''auto_speak'', JBool True)] []))) ''auto_speak'' = JBool True"
proof -
  have n: "get_slot (tracker_of [] []) ''auto_speak'' = JNull"
    by (simp add: get_slot_def tracker_of_def)
  have t: "get_slot (tracker_of [(''auto_speak'', JBool True)] []) ''auto_speak'' = JBool True"
    by (simp add: get_slot_def tracker_of_def)
  from toggle_negates_truthiness
         [of ActionToggleAutoSpeak "''auto_speak''" example_repr "always (Inl TypeError)"
             "tracker_of [] []" True] n
  have 1: "run ActionToggleAutoSpeak example_repr (always (Inl TypeError)) (tracker_of [] [])
             = Inr \<lparr>messages = [], events = [SlotSet ''auto_speak'' (JBool True)], sent = []\<rparr>
           \<and> get_slot (after_run ActionToggleAutoSpeak example_repr (always (Inl TypeError))
                 (after_run ActionToggleAutoSpeak example_repr (always (Inl TypeError))
                    (tracker_of [] []))) ''auto_speak'' = JBool False"
    by simp
  from toggle_negates_truthiness
         [of ActionToggleAutoSpeak "''auto_speak''" example_repr "always (Inl TypeError)"
             "tracker_of [(''auto_speak'', JBool True)] []" True] t
  have 2: "get_slot (after_run ActionToggleAutoSpeak example_repr (always (Inl TypeError))
                 (after_run ActionToggleAutoSpeak example_repr (always (Inl TypeError))
                    (tracker_of [(''auto_speak'', JBool True)] []))) ''auto_speak'' = JBool True"
    by simp
  from n t 1 2 show ?thesis by simp
qed








section \<open>The deployment script: properties\<close>

text \<open>
  The steps a log shows as started change only when a banner is logged. Logging any
  other line, calling the outside world, a sequence of such statements and a
  \<open>try\<close> around them start no step and write no file.
\<close>

lemma started_log_append:
  "started (w\<lparr>log := log w @ [(l, m)]\<rparr>) = started w @ (if m \<in> set step_banners then [m] else [])"
  by (simp add: started_def)

lemma started_calls_update [simp]: "started (w\<lparr>calls := cs\<rparr>) = started w"
  by (simp add: started_def)

lemma started_files_update [simp]: "started (w\<lparr>files := fs\<rparr>) = started w"
  by (simp add: started_def)

lemma quiet_info: "m \<notin> set step_banners \<Longrightarrow> quiet (logger_info m)"
  by (simp add: quiet_def logger_info_def started_log_append)

lemma quiet_error: "m \<notin> set step_banners \<Longrightarrow> quiet (logger_error m)"
  by (simp add: quiet_def logger_error_def started_log_append)

lemma quiet_external: "quiet (external env c)"
  by (simp add: quiet_def external_def)

lemma quiet_seqP: "(\<And>p. p \<in> set ps \<Longrightarrow> quiet p) \<Longrightarrow> quiet (seqP ps)"
proof (induction ps)
  case Nil
  show ?case by (simp add: quiet_def)
next
  case (Cons p ps)
  have p: "quiet p" and ps: "quiet (seqP ps)" using Cons by simp_all
  show ?case
    unfolding quiet_def
  proof
    fix w
    obtain r w' where pw: "p w = (r, w')" by (cases "p w")
    with p have w': "started w' = started w \<and> files w' = files w"
      by (auto simp: quiet_def dest: spec [of _ w])
    show "started (snd (seqP (p # ps) w)) = started w
          \<and> files (snd (seqP (p # ps) w)) = files w"
      using pw w' ps by (cases r) (simp_all add: quiet_def)
  qed
qed

lemma quiet_try:
  assumes "quiet p" and "\<And>e. quiet (h e)"
  shows "quiet (try_except p h)"
  unfolding quiet_def
proof
  fix w
  obtain r w' where pw: "p w = (r, w')" by (cases "p w")
  with assms(1) have w': "started w' = started w \<and> files w' = files w"
    by (auto simp: quiet_def dest: spec [of _ w])
  show "started (snd (try_except p h w)) = started w \<and> files (snd (try_except p h w)) = files w"
  proof (cases r)
    case (Inl e)
    with pw w' assms(2) [of e] show ?thesis by (simp add: try_except_def quiet_def)
  next
    case (Inr u)
    with pw w' show ?thesis by (simp add: try_except_def)
  qed
qed

lemma starts_seqP:
  assumes "b \<in> set step_banners" and "\<And>p. p \<in> set ps \<Longrightarrow> quiet p"
  shows "starts b (seqP (logger_info b # ps))"
proof -
  have "quiet (seqP ps)" using assms(2) by (rule quiet_seqP)
  then show ?thesis using assms(1)
    by (simp add: starts_def quiet_def logger_info_def started_log_append)
qed

lemma quiet_after_starts:
  assumes "starts b p" and "quiet q"
  shows "starts b (seqP [p, q])"
  unfolding starts_def
proof
  fix w
  obtain r w' where pw: "p w = (r, w')" by (cases "p w")
  with assms(1) have w': "started w' = started w @ [b] \<and> files w' = files w"
    by (auto simp: starts_def dest: spec [of _ w])
  show "started (snd (seqP [p, q] w)) = started w @ [b] \<and> files (snd (seqP [p, q] w)) = files w"
  proof (cases r)
    case (Inl e)
    with pw w' show ?thesis by simp
  next
    case (Inr u)
    obtain r2 w2 where qw: "q w' = (r2, w2)" by (cases "q w'")
    with assms(2) have "started w2 = started w' \<and> files w2 = files w'"
      by (auto simp: quiet_def dest: spec [of _ w'])
    with Inr pw w' qw show ?thesis by (cases r2) simp_all
  qed
qed

lemma starts_try:
  assumes "starts b p" and "\<And>e. quiet (h e)"
  shows "starts b (try_except p h)"
  unfolding starts_def
proof
  fix w
  obtain r w' where pw: "p w = (r, w')" by (cases "p w")
  with assms(1) have w': "started w' = started w @ [b] \<and> files w' = files w"
    by (auto simp: starts_def dest: spec [of _ w])
  show "started (snd (try_except p h w)) = started w @ [b]
        \<and> files (snd (try_except p h w)) = files w"
  proof (cases r)
    case (Inl e)
    with pw w' assms(2) [of e] show ?thesis by (simp add: try_except_def quiet_def)
  next
    case (Inr u)
    with pw w' show ?thesis by (simp add: try_except_def)
  qed
qed

lemma try_never_raises:
  "fst (try_except p (\<lambda>e. logger_error (f e)) w) = Inr ()"
  by (cases "p w") (auto simp: try_except_def logger_error_def split: sum.splits)

text \<open>
  Each of the first four steps logs its banner first and nothing after it that is a
  banner, whichever of its calls raise.
\<close>

lemma starts_steps:
  assumes "b \<in> set step_banners" and "list_all quiet ps"
  shows "starts b (seqP (logger_info b # ps))"
  using assms by (intro starts_seqP) (simp_all add: list_all_iff)

lemma quiet_steps: "list_all quiet ps \<Longrightarrow> quiet (seqP ps)"
  by (intro quiet_seqP) (simp add: list_all_iff)

lemma quiet_pip:
  "list_all quiet (concat (map (\<lambda>dep. [logger_info (''Installing: '' @ dep),
                                         external env (PipInstall (split_ws dep))]) ds))"
  by (induction ds) (simp_all add: quiet_info quiet_external step_banners_def)

lemma starts_install:
  "starts ([CHR 0xF0, CHR 0x9F, CHR 0x93, CHR 0xA6] @ '' Installing vision model dependencies...'')
     (install_dependencies env self)"
  unfolding install_dependencies_def
  by (rule starts_steps) (simp add: step_banners_def, rule quiet_pip)

lemma starts_qwen:
  "starts ([CHR 0xF0, CHR 0x9F, CHR 0x9A, CHR 0x80] @ '' Deploying Qwen 2.5 VL...'')
     (deploy_qwen_vl env self)"
  unfolding deploy_qwen_vl_def Let_def
  by (rule starts_steps) (simp_all add: step_banners_def quiet_info quiet_external)

lemma starts_ocr:
  "starts ([CHR 0xF0, CHR 0x9F, CHR 0x93, CHR 0x84] @ '' Deploying OCR liberation stack...'')
     (deploy_ocr_stack env self)"
  unfolding deploy_ocr_stack_def
  by (rule starts_steps) (simp_all add: step_banners_def quiet_info quiet_external)

lemma quiet_minicpm:
  "quiet (try_except
          (let model_id = ''openbmb/MiniCPM-V-2'';
               save_path = path_join (models_dir self) ''minicpm-v''
           in seqP
                [external env (Import ''transformers''),
                 logger_info (''Downloading '' @ model_id @ ''...''),
                 external env (TokenizerFromPretrained model_id),
                 external env (ModelFromPretrained model_id
                                 (if gpu_available self then ''float16'' else ''float32'') None),
                 external env (SavePretrained ''model'' save_path),
                 external env (SavePretrained ''tokenizer'' save_path),
                 logger_info ([CHR 0xE2, CHR 0x9C, CHR 0x85] @ '' MiniCPM-V deployed!'')])
          (\<lambda>e. logger_error (''Failed to deploy MiniCPM-V: '' @ e)))"
  unfolding Let_def
proof (rule quiet_try)
  fix e
  show "quiet (logger_error (''Failed to deploy MiniCPM-V: '' @ e))"
    by (rule quiet_error) (simp add: step_banners_def)
qed (rule quiet_steps, simp add: step_banners_def quiet_info quiet_external)

lemma starts_edge:
  "starts ([CHR 0xF0, CHR 0x9F, CHR 0x93, CHR 0xB1] @ '' Deploying edge vision models...'')
     (deploy_edge_models env self)"
  unfolding deploy_edge_models_def
  by (rule starts_steps)
     (simp add: step_banners_def, simp only: list.pred_inject simp_thms, rule quiet_minicpm)

text \<open>
  The result of \<open>install_dependencies\<close> is decided by the first pip run that fails, if
  any, and so does not depend on the world it starts in.
\<close>

lemma seqP_step: "fst (p w) = Inr () \<Longrightarrow> seqP (p # ps) w = seqP ps (snd (p w))"
  by (cases "p w") auto

lemma pip_result:
  "fst (seqP (concat (map (\<lambda>dep. [logger_info (''Installing: '' @ dep),
                                    external env (PipInstall (split_ws dep))]) ds)) w)
     = (case List.find (\<lambda>dep. env (PipInstall (split_ws dep)) \<noteq> None) ds of
          None \<Rightarrow> Inr ()
        | Some dep \<Rightarrow> Inl (the (env (PipInstall (split_ws dep)))))"
  by (induction ds arbitrary: w) (auto simp: logger_info_def external_def)

lemma install_result:
  "fst (install_dependencies env self w)
     = (case List.find (\<lambda>dep. env (PipInstall (split_ws dep)) \<noteq> None) dependencies of
          None \<Rightarrow> Inr ()
        | Some dep \<Rightarrow> Inl (the (env (PipInstall (split_ws dep)))))"
  unfolding install_dependencies_def
  by (subst seqP_step) (simp_all only: pip_result, simp_all add: logger_info_def)

lemma install_result_any_world:
  "fst (install_dependencies env self w) = fst (install_dependencies env self w')"
  by (simp only: install_result)

text \<open>
  The last four statements of \<open>deploy_all\<close>: \<open>create_unified_api\<close> and the three
  closing log lines.
\<close>

lemma api_step:
  "started (snd (seqP [create_unified_api env api_code self, logger_info m1, logger_info m2,
                       logger_info m3] w))
     = started w @ [[CHR 0xF0, CHR 0x9F, CHR 0x94, CHR 0xA7] @ '' Creating unified vision API...'']
         @ (if env (WriteFile (api_path self)) = None
            then filter (\<lambda>m. m \<in> set step_banners) [m1, m2, m3] else [])
   \<and> calls (snd (seqP [create_unified_api env api_code self, logger_info m1, logger_info m2,
                       logger_info m3] w))
       = calls w @ [WriteFile (api_path self)]
   \<and> (case env (WriteFile (api_path self)) of
         None \<Rightarrow>
           fst (seqP [create_unified_api env api_code self, logger_info m1, logger_info m2,
                      logger_info m3] w) = Inr ()
           \<and> files (snd (seqP [create_unified_api env api_code self, logger_info m1,
                               logger_info m2, logger_info m3] w))
               = (files w)(api_path self \<mapsto> api_code)
       | Some msg \<Rightarrow>
           fst (seqP [create_unified_api env api_code self, logger_info m1, logger_info m2,
                      logger_info m3] w) = Inl msg
           \<and> files (snd (seqP [create_unified_api env api_code self, logger_info m1,
                               logger_info m2, logger_info m3] w))
               = files w)"
  by (cases "env (WriteFile (api_path self))")
     (simp_all add: create_unified_api_def logger_info_def write_file_def started_def
                    step_banners_def)

text \<open>
  \<open>deploy_all\<close> as a whole, once \<open>install_dependencies\<close> has succeeded: the three
  guarded steps never raise, so the run reaches \<open>create_unified_api\<close>, and its result
  is the result of the write.
\<close>

lemma starts_guarded:
  assumes "starts b p" and "m \<notin> set step_banners" and "\<And>e. f @ e \<notin> set step_banners"
  shows "starts b (try_except (seqP [p, logger_info m]) (\<lambda>e. logger_error (f @ e)))"
  using assms by (intro starts_try quiet_after_starts quiet_info quiet_error)

lemma pipeline_result:
  assumes "fst (i0 w0) = Inr ()" and "fst (p1 (snd (i0 w0))) = Inr ()"
    and "\<And>w. fst (t1 w) = Inr ()" and "\<And>w. fst (t2 w) = Inr ()" and "\<And>w. fst (t3 w) = Inr ()"
  shows "seqP (i0 # p1 # t1 # t2 # t3 # rest) w0
           = seqP rest (snd (t3 (snd (t2 (snd (t1 (snd (p1 (snd (i0 w0))))))))))"
  by (simp only: seqP_step assms)

lemma pipeline_started:
  assumes "quiet i0" and "starts b1 p1" and "starts b2 t1" and "starts b3 t2" and "starts b4 t3"
  shows "started (snd (t3 (snd (t2 (snd (t1 (snd (p1 (snd (i0 w0))))))))))
           = started w0 @ [b1, b2, b3, b4]
         \<and> files (snd (t3 (snd (t2 (snd (t1 (snd (p1 (snd (i0 w0)))))))))) = files w0"
  using assms by (simp add: starts_def quiet_def)

lemma deploy_all_outcome:
  assumes ok: "fst (install_dependencies env self (world0 fs)) = Inr ()"
  shows "started (snd (deploy_all env api_code self (world0 fs))) = step_banners
   \<and> WriteFile (api_path self) \<in> set (calls (snd (deploy_all env api_code self (world0 fs))))
   \<and> (case env (WriteFile (api_path self)) of
         None \<Rightarrow> fst (deploy_all env api_code self (world0 fs)) = Inr ()
                 \<and> files (snd (deploy_all env api_code self (world0 fs)))
                     = fs(api_path self \<mapsto> api_code)
       | Some msg \<Rightarrow> fst (deploy_all env api_code self (world0 fs)) = Inl msg
                 \<and> files (snd (deploy_all env api_code self (world0 fs))) = fs)"
proof -
  define i0 where "i0 = logger_info ([CHR 0xF0, CHR 0x9F, CHR 0x9A, CHR 0x80]
                     @ '' Starting complete vision stack deployment...'')"
  define t1 where "t1 = try_except
          (seqP [deploy_qwen_vl env self,
                 logger_info ([CHR 0xE2, CHR 0x9C, CHR 0x85]
                              @ '' Qwen VL ready for multimodal understanding'')])
          (\<lambda>e. logger_error (''Failed to deploy Qwen VL: '' @ e))"
  define t2 where "t2 = try_except
          (seqP [deploy_ocr_stack env self,
                 logger_info ([CHR 0xE2, CHR 0x9C, CHR 0x85]
                              @ '' OCR stack ready for document liberation'')])
          (\<lambda>e. logger_error (''Failed to deploy OCR stack: '' @ e))"
  define t3 where "t3 = try_except
          (seqP [deploy_edge_models env self,
                 logger_info ([CHR 0xE2, CHR 0x9C, CHR 0x85]
                              @ '' Edge models ready for mobile deployment'')])
          (\<lambda>e. logger_error (''Failed to deploy edge models: '' @ e))"
  define m1 where "m1 = [CHR 0xF0, CHR 0x9F, CHR 0x8E, CHR 0x89] @ '' Vision stack deployment complete!''"
  define m2 where "m2 = [CHR 0xF0, CHR 0x9F, CHR 0x8C, CHR 0x8D]
                     @ '' Ready to perceive and understand the visual world!''"
  define m3 where "m3 = [CHR 0xF0, CHR 0x9F, CHR 0x92, CHR 0xA1]
                     @ '' Every image understood, every document liberated!''"
  define w5 where "w5 = snd (t3 (snd (t2 (snd (t1 (snd (install_dependencies env self
                          (snd (i0 (world0 fs))))))))))"
  define rest where "rest = [create_unified_api env api_code self, logger_info m1,
                             logger_info m2, logger_info m3]"
  have all: "deploy_all env api_code self
               = seqP (i0 # install_dependencies env self # t1 # t2 # t3 # rest)"
    by (simp only: deploy_all_def i0_def t1_def t2_def t3_def m1_def m2_def m3_def rest_def)
  have r0: "fst (i0 (world0 fs)) = Inr ()"
    by (simp add: i0_def logger_info_def)
  have r1: "fst (install_dependencies env self (snd (i0 (world0 fs)))) = Inr ()"
    using ok install_result_any_world [of env self "snd (i0 (world0 fs))" "world0 fs"] by simp
  have run: "deploy_all env api_code self (world0 fs) = seqP rest w5"
    unfolding all w5_def
    by (rule pipeline_result [where ?i0.0 = i0 and ?w0.0 = "world0 fs"
                                and ?p1.0 = "install_dependencies env self", OF r0 r1])
       (simp_all only: t1_def t2_def t3_def try_never_raises)
  have q0: "quiet i0"
    unfolding i0_def by (rule quiet_info) (simp add: step_banners_def)
  have s1: "starts ([CHR 0xF0, CHR 0x9F, CHR 0x9A, CHR 0x80] @ '' Deploying Qwen 2.5 VL...'') t1"
    unfolding t1_def by (rule starts_guarded [OF starts_qwen]) (simp_all add: step_banners_def)
  have s2: "starts ([CHR 0xF0, CHR 0x9F, CHR 0x93, CHR 0x84] @ '' Deploying OCR liberation stack...'') t2"
    unfolding t2_def by (rule starts_guarded [OF starts_ocr]) (simp_all add: step_banners_def)
  have s3: "starts ([CHR 0xF0, CHR 0x9F, CHR 0x93, CHR 0xB1] @ '' Deploying edge vision models...'') t3"
    unfolding t3_def by (rule starts_guarded [OF starts_edge]) (simp_all add: step_banners_def)
  from pipeline_started [where ?i0.0 = i0 and ?p1.0 = "install_dependencies env self"
                           and ?t1.0 = t1 and ?t2.0 = t2 and ?t3.0 = t3 and ?w0.0 = "world0 fs",
                         OF q0 starts_install s1 s2 s3]
  have w5: "started w5 = take 4 step_banners \<and> files w5 = fs"
    by (simp add: w5_def world0_def started_def step_banners_def)
  have nb: "filter (\<lambda>m. m \<in> set step_banners) [m1, m2, m3] = []"
    by (simp add: m1_def m2_def m3_def step_banners_def)
  note a = api_step [of env api_code self m1 m2 m3 w5, folded rest_def, unfolded nb]
  have st: "started (snd (seqP rest w5)) = step_banners"
    using a w5 by (simp add: step_banners_def)
  have cl: "WriteFile (api_path self) \<in> set (calls (snd (seqP rest w5)))"
    using a by simp
  have fl: "case env (WriteFile (api_path self)) of
         None \<Rightarrow> fst (seqP rest w5) = Inr ()
                 \<and> files (snd (seqP rest w5)) = fs(api_path self \<mapsto> api_code)
       | Some msg \<Rightarrow> fst (seqP rest w5) = Inl msg \<and> files (snd (seqP rest w5)) = fs"
    using a w5 by (cases "env (WriteFile (api_path self))") simp_all
  from st cl fl show ?thesis by (simp only: run) 
qed

text \<open>
  C5, as the specification states it, fails in its last part: \<open>create_unified_api\<close>
  opens the file outside any \<open>try\<close>. Here every pip run and every model step succeeds
  and the directory \<open>/opt/models\<close> refuses the write: \<open>deploy_all\<close> raises and the
  template file is not on disk.
\<close>

theorem api_file_not_written:
  "fst (install_dependencies write_denied (VisionModelDeployer_init False) (world0 no_files))
     = Inr ()
   \<and> fst (deploy_all write_denied ''app = FastAPI()'' (VisionModelDeployer_init False)
            (world0 no_files))
       = Inl ''Permission denied''
   \<and> files (snd (deploy_all write_denied ''app = FastAPI()'' (VisionModelDeployer_init False)
                   (world0 no_files)))
         ''/opt/models/vision_api.py''
       = None"
proof -
  have ok: "fst (install_dependencies write_denied (VisionModelDeployer_init False)
                  (world0 no_files)) = Inr ()"
    by (simp add: install_result write_denied_def find_None_iff split: option.splits)
  have p: "api_path (VisionModelDeployer_init False) = ''/opt/models/vision_api.py''"
    by (simp add: api_path_def path_parent_def path_join_def VisionModelDeployer_init_def)
  have d: "write_denied (WriteFile ''/opt/models/vision_api.py'') = Some ''Permission denied''"
    by (simp add: write_denied_def)
  from deploy_all_outcome [OF ok, of "''app = FastAPI()''"]
  have "fst (deploy_all write_denied ''app = FastAPI()'' (VisionModelDeployer_init False)
               (world0 no_files)) = Inl ''Permission denied''
        \<and> files (snd (deploy_all write_denied ''app = FastAPI()'' (VisionModelDeployer_init False)
                        (world0 no_files))) = no_files"
    by (simp only: p d option.case)
  with ok show ?thesis by (simp add: no_files_def)
qed

text \<open>
  C5, amended. When \<open>install_dependencies\<close> succeeds, the five steps start in the fixed
  order, each once, whatever the three model-deployment steps raise, and
  \<open>create_unified_api\<close> attempts the write of the template file; when that write does
  not raise, \<open>deploy_all\<close> returns and the file holds the template.
\<close>

theorem deploy_all_order_and_api:
  "fst (install_dependencies env self (world0 fs)) = Inr () \<longrightarrow>
     started (snd (deploy_all env api_code self (world0 fs))) = step_banners
     \<and> WriteFile (api_path self) \<in> set (calls (snd (deploy_all env api_code self (world0 fs))))
     \<and> (env (WriteFile (api_path self)) = None \<longrightarrow>
          fst (deploy_all env api_code self (world0 fs)) = Inr ()
          \<and> files (snd (deploy_all env api_code self (world0 fs))) (api_path self)
              = Some api_code)"
proof
  assume ok: "fst (install_dependencies env self (world0 fs)) = Inr ()"
  from deploy_all_outcome [OF ok, of api_code]
  show "started (snd (deploy_all env api_code self (world0 fs))) = step_banners
     \<and> WriteFile (api_path self) \<in> set (calls (snd (deploy_all env api_code self (world0 fs))))
     \<and> (env (WriteFile (api_path self)) = None \<longrightarrow>
          fst (deploy_all env api_code self (world0 fs)) = Inr ()
          \<and> files (snd (deploy_all env api_code self (world0 fs))) (api_path self)
              = Some api_code)"
    by (cases "env (WriteFile (api_path self))") simp_all
qed

text \<open>
  The model hub is offline: pip and the file system work, every import, download and
  model construction raises. All five steps start, and the template is written.
\<close>

theorem deploy_all_order_and_api_witness:
  "fst (install_dependencies hub_down (VisionModelDeployer_init True) (world0 no_files)) = Inr ()
   \<and> hub_down (WriteFile ''/opt/models/vision_api.py'') = None
   \<and> started (snd (deploy_all hub_down ''app = FastAPI()'' (VisionModelDeployer_init True)
                     (world0 no_files)))
       = step_banners
   \<and> fst (deploy_all hub_down ''app = FastAPI()'' (VisionModelDeployer_init True)
            (world0 no_files))
       = Inr ()
   \<and> files (snd (deploy_all hub_down ''app = FastAPI()'' (VisionModelDeployer_init True)
                   (world0 no_files)))
         ''/opt/models/vision_api.py''
       = Some ''app = FastAPI()''"
proof -
  have ok: "fst (install_dependencies hub_down (VisionModelDeployer_init True)
                  (world0 no_files)) = Inr ()"
    by (simp add: install_result hub_down_def find_None_iff split: option.splits)
  have p: "api_path (VisionModelDeployer_init True) = ''/opt/models/vision_api.py''"
    by (simp add: api_path_def path_parent_def path_join_def VisionModelDeployer_init_def)
  have d: "hub_down (WriteFile ''/opt/models/vision_api.py'') = None"
    by (simp add: hub_down_def)
  from deploy_all_order_and_api
         [of hub_down "VisionModelDeployer_init True" no_files "''app = FastAPI()''"] ok
  have "started (snd (deploy_all hub_down ''app = FastAPI()'' (VisionModelDeployer_init True)
                     (world0 no_files))) = step_banners
        \<and> (hub_down (WriteFile ''/opt/models/vision_api.py'') = None \<longrightarrow>
          fst (deploy_all hub_down ''app = FastAPI()'' (VisionModelDeployer_init True)
                (world0 no_files)) = Inr ()
          \<and> files (snd (deploy_all hub_down ''app = FastAPI()'' (VisionModelDeployer_init True)
                          (world0 no_files))) ''/opt/models/vision_api.py''
              = Some ''app = FastAPI()'')"
    by (simp only: p) blast
  with ok d show ?thesis by blast
qed


end
